theory Spec2Isabelle
  imports Main "HOL-Library.Word"
begin

section \<open>Python values\<close>

text \<open>
  A Python \<open>str\<close> is a sequence of Unicode code points; it is modelled as a list of
  naturals, one per code point, so that \<open>len\<close>, \<open>strip\<close>, \<open>rsplit\<close> and the decoding of
  percent escapes see the same units as the interpreter. \<open>py\<close> turns an ASCII literal into
  such a string.
\<close>

type_synonym pystr = "nat list"

definition py :: "string \<Rightarrow> pystr" where
  "py s = map of_char s"

text \<open>
  Values decoded from JSON (the event, the replies of the job API). A Python \<open>float\<close> is
  the 64 bits of its IEEE double: nothing below computes with one or compares two, and
  its two renderings (\<open>repr\<close> and the JSON encoder's) are read from the interpreter, see
  \<open>world\<close>. A \<open>dict\<close> is an association list in insertion order, looked up with
  \<open>map_of\<close>.
\<close>

type_synonym pyfloat = "64 word"

datatype json =
    JNull
  | JBool bool
  | JInt int
  | JFloat pyfloat
  | JStr pystr
  | JList "json list"
  | JObj "(pystr \<times> json) list"

text \<open>
  Exceptions: the class and the text \<open>str(e)\<close> gives. Every class below derives from
  Python's \<open>Exception\<close>. \<open>RequestException\<close> stands for
  \<open>requests.exceptions.RequestException\<close> and its subclasses, \<open>OtherError\<close> for any class
  the code never names (botocore's \<open>ClientError\<close> among them, which the code only logs
  and raises again).
\<close>

datatype exc_class =
    KeyError | IndexError | TypeError | AttributeError | ValueError
  | TimeoutError | Exception | RequestException | UnicodeEncodeError
  | OtherError pystr

datatype py_exception = PyExc (exc_class: exc_class) (exc_str: pystr)

text \<open>
  The module's configuration, read from the process environment when the module is
  loaded (\<open>os.environ.get\<close> gives \<open>None\<close> for an unset variable).
\<close>

record config =
  RUNPOD_API_KEY :: "pystr option"
  RUNPOD_API_ENDPOINT :: "pystr option"
  OUTPUT_BUCKET :: pystr
  MAX_POLLING_ATTEMPTS :: int
  POLLING_INTERVAL :: int

text \<open>
  What the function calls and does not define: the interpreter's tables for rendering
  floats and for \<open>str.isprintable\<close>, the object store and the HTTP client.
  \<^item> \<open>s3_get_object b k\<close> is the outcome of
    \<open>s3_client.get_object(Bucket=b, Key=k)['Body'].read().decode('utf-8')\<close>;
  \<^item> \<open>requests_post url prompt\<close> is the outcome of \<open>requests.post\<close>,
    \<open>raise_for_status\<close> and \<open>response.json()\<close> together;
  \<^item> \<open>requests_get n url\<close> is the same for the \<open>n\<close>-th status request of a run
    (counted from 0);
  \<^item> \<open>s3_put_object body bucket key\<close> is the outcome of \<open>s3_client.put_object\<close> for
    the bytes \<open>body\<close>, \<open>None\<close> when it returns.
\<close>

record world =
  unicode_printable :: "nat \<Rightarrow> bool"
  float_repr :: "pyfloat \<Rightarrow> pystr"
  float_json :: "pyfloat \<Rightarrow> pystr"
  s3_get_object :: "json \<Rightarrow> pystr \<Rightarrow> py_exception + pystr"
  requests_post :: "pystr \<Rightarrow> pystr \<Rightarrow> py_exception + json"
  requests_get :: "nat \<Rightarrow> pystr \<Rightarrow> py_exception + json"
  s3_put_object :: "nat list \<Rightarrow> pystr \<Rightarrow> pystr \<Rightarrow> py_exception option"

text \<open>The calls a run makes, in order.\<close>

datatype event =
    S3GetObject json pystr
  | HttpPost pystr pystr
  | HttpGet pystr
  | Sleep int
  | S3PutObject "nat list" pystr pystr

type_synonym 'a run = "(py_exception + 'a) \<times> event list"

definition after :: "event list \<Rightarrow> 'a run \<Rightarrow> 'a run" where
  "after evs r = (fst r, evs @ snd r)"

section \<open>Formatting: \<open>str\<close>, \<open>repr\<close> and \<open>json.dumps\<close>\<close>

fun digits10 :: "nat \<Rightarrow> pystr" where
  "digits10 n = (if n < 10 then [48 + n] else digits10 (n div 10) @ [48 + n mod 10])"

declare digits10.simps [simp del]

definition int_str :: "int \<Rightarrow> pystr" where
  "int_str i = (if i < 0 then 45 # digits10 (nat (- i)) else digits10 (nat i))"

definition hexdigit :: "nat \<Rightarrow> nat" where
  "hexdigit d = (if d < 10 then 48 + d else 87 + d)"

fun hex_fixed :: "nat \<Rightarrow> nat \<Rightarrow> pystr" where
  "hex_fixed 0 n = []"
| "hex_fixed (Suc k) n = hex_fixed k (n div 16) @ [hexdigit (n mod 16)]"

fun join :: "pystr \<Rightarrow> pystr list \<Rightarrow> pystr" where
  "join sep [] = []"
| "join sep [x] = x"
| "join sep (x # y # ys) = x @ sep @ join sep (y # ys)"

definition type_name :: "json \<Rightarrow> pystr" where
  "type_name v =
     (case v of
        JNull \<Rightarrow> py ''NoneType''
      | JBool _ \<Rightarrow> py ''bool''
      | JInt _ \<Rightarrow> py ''int''
      | JFloat _ \<Rightarrow> py ''float''
      | JStr _ \<Rightarrow> py ''str''
      | JList _ \<Rightarrow> py ''list''
      | JObj _ \<Rightarrow> py ''dict'')"

text \<open>
  \<open>repr\<close> of a \<open>str\<close>: single quotes unless the text has a single quote and no double
  quote; the quote and the backslash escaped; tab, newline and return by letter; the
  other ASCII controls, and the code points the interpreter does not hold printable, in
  hexadecimal.
\<close>

definition repr_char :: "world \<Rightarrow> nat \<Rightarrow> nat \<Rightarrow> pystr" where
  "repr_char w q c =
     (if c = q \<or> c = 92 then [92, c]
      else if c = 9 then [92, 116]
      else if c = 10 then [92, 110]
      else if c = 13 then [92, 114]
      else if c < 32 \<or> c = 127 then 92 # 120 # hex_fixed 2 c
      else if c < 127 then [c]
      else if unicode_printable w c then [c]
      else if c \<le> 255 then 92 # 120 # hex_fixed 2 c
      else if c \<le> 65535 then 92 # 117 # hex_fixed 4 c
      else 92 # 85 # hex_fixed 8 c)"

definition repr_str :: "world \<Rightarrow> pystr \<Rightarrow> pystr" where
  "repr_str w s =
     (let q = (if 39 \<in> set s \<and> 34 \<notin> set s then 34 else 39)
      in q # concat (map (repr_char w q) s) @ [q])"

fun py_repr :: "world \<Rightarrow> json \<Rightarrow> pystr" where
  "py_repr w JNull = py ''None''"
| "py_repr w (JBool b) = (if b then py ''True'' else py ''False'')"
| "py_repr w (JInt i) = int_str i"
| "py_repr w (JFloat f) = float_repr w f"
| "py_repr w (JStr s) = repr_str w s"
| "py_repr w (JList xs) = 91 # join (py '', '') (map (py_repr w) xs) @ [93]"
| "py_repr w (JObj kvs) =
     123 # join (py '', '')
             (map (\<lambda>kv. repr_str w (fst kv) @ py '': '' @ py_repr w (snd kv)) kvs) @ [125]"

text \<open>\<open>str(v)\<close>, which is also what an f-string writes for \<open>{v}\<close>.\<close>

definition py_str :: "world \<Rightarrow> json \<Rightarrow> pystr" where
  "py_str w v = (case v of JStr s \<Rightarrow> s | _ \<Rightarrow> py_repr w v)"

definition opt_str :: "pystr option \<Rightarrow> pystr" where
  "opt_str v = (case v of None \<Rightarrow> py ''None'' | Some s \<Rightarrow> s)"

text \<open>
  \<open>json.dumps\<close> with its defaults: \<open>ensure_ascii\<close>, separators \<open>", "\<close> and \<open>": "\<close>.
\<close>

definition json_escape_char :: "nat \<Rightarrow> pystr" where
  "json_escape_char c =
     (if c = 92 then [92, 92]
      else if c = 34 then [92, 34]
      else if c = 8 then [92, 98]
      else if c = 12 then [92, 102]
      else if c = 10 then [92, 110]
      else if c = 13 then [92, 114]
      else if c = 9 then [92, 116]
      else if 32 \<le> c \<and> c \<le> 126 then [c]
      else if c < 65536 then 92 # 117 # hex_fixed 4 c
      else 92 # 117 # hex_fixed 4 (55296 + ((c - 65536) div 1024) mod 1024)
         @ 92 # 117 # hex_fixed 4 (56320 + (c - 65536) mod 1024))"

definition json_string :: "pystr \<Rightarrow> pystr" where
  "json_string s = 34 # concat (map json_escape_char s) @ [34]"

fun json_dumps :: "world \<Rightarrow> json \<Rightarrow> pystr" where
  "json_dumps w JNull = py ''null''"
| "json_dumps w (JBool b) = (if b then py ''true'' else py ''false'')"
| "json_dumps w (JInt i) = int_str i"
| "json_dumps w (JFloat f) = float_json w f"
| "json_dumps w (JStr s) = json_string s"
| "json_dumps w (JList xs) = 91 # join (py '', '') (map (json_dumps w) xs) @ [93]"
| "json_dumps w (JObj kvs) =
     123 # join (py '', '')
             (map (\<lambda>kv. json_string (fst kv) @ py '': '' @ json_dumps w (snd kv)) kvs) @ [125]"

section \<open>Operations on values\<close>

text \<open>\<open>v.get(k, d)\<close>: only a \<open>dict\<close> has the method.\<close>

definition no_attribute :: "json \<Rightarrow> pystr \<Rightarrow> py_exception" where
  "no_attribute v name =
     PyExc AttributeError
       (39 # type_name v @ 39 # py '' object has no attribute '' @ 39 # name @ [39])"

definition dict_get :: "json \<Rightarrow> pystr \<Rightarrow> json \<Rightarrow> py_exception + json" where
  "dict_get v k d =
     (case v of
        JObj kvs \<Rightarrow> Inr (case map_of kvs k of Some x \<Rightarrow> x | None \<Rightarrow> d)
      | _ \<Rightarrow> Inl (no_attribute v (py ''get'')))"

definition is_dict :: "json \<Rightarrow> bool" where
  "is_dict v = (case v of JObj _ \<Rightarrow> True | _ \<Rightarrow> False)"

definition is_str :: "json \<Rightarrow> bool" where
  "is_str v = (case v of JStr _ \<Rightarrow> True | _ \<Rightarrow> False)"

text \<open>
  \<open>k in v\<close> for a \<open>str\<close> \<open>k\<close>: a key of a \<open>dict\<close>, an element of a \<open>list\<close>, a substring
  of a \<open>str\<close>; the other values are not iterable.
\<close>

fun is_substring :: "pystr \<Rightarrow> pystr \<Rightarrow> bool" where
  "is_substring k [] = (k = [])"
| "is_substring k (c # cs) = (take (length k) (c # cs) = k \<or> is_substring k cs)"

definition py_in :: "pystr \<Rightarrow> json \<Rightarrow> py_exception + bool" where
  "py_in k v =
     (case v of
        JObj kvs \<Rightarrow> Inr (map_of kvs k \<noteq> None)
      | JList xs \<Rightarrow> Inr (JStr k \<in> set xs)
      | JStr s \<Rightarrow> Inr (is_substring k s)
      | _ \<Rightarrow>
          Inl (PyExc TypeError
                 (py ''argument of type '' @ 39 # type_name v @ 39 # py '' is not iterable'')))"

text \<open>
  \<open>v[k]\<close> for a \<open>str\<close> \<open>k\<close>; \<open>str\<close> of a \<open>KeyError\<close> is the \<open>repr\<close> of the key. The
  texts of the \<open>TypeError\<close>s are those of CPython 3.11.
\<close>

definition not_subscriptable :: "json \<Rightarrow> py_exception" where
  "not_subscriptable v =
     PyExc TypeError (39 # type_name v @ 39 # py '' object is not subscriptable'')"

definition subscript_key :: "world \<Rightarrow> json \<Rightarrow> pystr \<Rightarrow> py_exception + json" where
  "subscript_key w v k =
     (case v of
        JObj kvs \<Rightarrow>
          (case map_of kvs k of
             Some x \<Rightarrow> Inr x
           | None \<Rightarrow> Inl (PyExc KeyError (repr_str w k)))
      | JList _ \<Rightarrow>
          Inl (PyExc TypeError (py ''list indices must be integers or slices, not str''))
      | JStr _ \<Rightarrow>
          Inl (PyExc TypeError
                 (py ''string indices must be integers, not '' @ 39 # py ''str'' @ [39]))
      | _ \<Rightarrow> Inl (not_subscriptable v))"

text \<open>\<open>time.sleep\<close> refuses a negative length.\<close>

definition time_sleep :: "int \<Rightarrow> py_exception + event" where
  "time_sleep secs =
     (if secs < 0 then Inl (PyExc ValueError (py ''sleep length must be non-negative''))
      else Inr (Sleep secs))"

section \<open>Operations on strings\<close>

text \<open>
  \<open>str.strip()\<close> removes the code points \<open>str.isspace\<close> accepts from both ends.
\<close>

definition py_isspace :: "nat \<Rightarrow> bool" where
  "py_isspace c =
     ((9 \<le> c \<and> c \<le> 13) \<or> (28 \<le> c \<and> c \<le> 32) \<or> c = 133 \<or> c = 160 \<or> c = 5760
      \<or> (8192 \<le> c \<and> c \<le> 8202) \<or> c = 8232 \<or> c = 8233 \<or> c = 8239 \<or> c = 8287
      \<or> c = 12288)"

definition str_strip :: "pystr \<Rightarrow> pystr" where
  "str_strip s = rev (dropWhile py_isspace (rev (dropWhile py_isspace s)))"

text \<open>
  \<open>s.rsplit(sep, 1)\<close> for a separator of one code point: the text before the last
  separator and the text after it, or \<open>s\<close> alone when it has none.
\<close>

definition rsplit1 :: "nat \<Rightarrow> pystr \<Rightarrow> pystr list" where
  "rsplit1 sep s =
     (if sep \<in> set s then
        [rev (tl (dropWhile (\<lambda>c. c \<noteq> sep) (rev s))), rev (takeWhile (\<lambda>c. c \<noteq> sep) (rev s))]
      else [s])"

text \<open>
  \<open>bytes.decode('utf-8', 'replace')\<close>: a well-formed sequence gives its code point; an
  ill-formed one gives U+FFFD for its longest prefix that could start a well-formed
  sequence (one byte at least), and decoding goes on after that prefix.
\<close>

definition is_cont :: "nat \<Rightarrow> bool" where
  "is_cont b = (128 \<le> b \<and> b \<le> 191)"

definition second_ok :: "nat \<Rightarrow> nat \<Rightarrow> bool" where
  "second_ok b c =
     (if b = 224 then 160 \<le> c \<and> c \<le> 191
      else if b = 237 then 128 \<le> c \<and> c \<le> 159
      else if b = 240 then 144 \<le> c \<and> c \<le> 191
      else if b = 244 then 128 \<le> c \<and> c \<le> 143
      else is_cont c)"

fun utf8_decode :: "nat list \<Rightarrow> pystr" where
  "utf8_decode [] = []"
| "utf8_decode (b # bs) =
     (if b < 128 then b # utf8_decode bs
      else if 194 \<le> b \<and> b \<le> 223 then
        (case bs of
           [] \<Rightarrow> [65533]
         | c1 # r1 \<Rightarrow>
             if is_cont c1 then (b mod 32 * 64 + c1 mod 64) # utf8_decode r1
             else 65533 # utf8_decode bs)
      else if 224 \<le> b \<and> b \<le> 239 then
        (case bs of
           [] \<Rightarrow> [65533]
         | c1 # r1 \<Rightarrow>
             if second_ok b c1 then
               (case r1 of
                  [] \<Rightarrow> [65533]
                | c2 # r2 \<Rightarrow>
                    if is_cont c2 then
                      (b mod 16 * 4096 + c1 mod 64 * 64 + c2 mod 64) # utf8_decode r2
                    else 65533 # utf8_decode r1)
             else 65533 # utf8_decode bs)
      else if 240 \<le> b \<and> b \<le> 244 then
        (case bs of
           [] \<Rightarrow> [65533]
         | c1 # r1 \<Rightarrow>
             if second_ok b c1 then
               (case r1 of
                  [] \<Rightarrow> [65533]
                | c2 # r2 \<Rightarrow>
                    if is_cont c2 then
                      (case r2 of
                         [] \<Rightarrow> [65533]
                       | c3 # r3 \<Rightarrow>
                           if is_cont c3 then
                             (b mod 8 * 262144 + c1 mod 64 * 4096 + c2 mod 64 * 64 + c3 mod 64)
                               # utf8_decode r3
                           else 65533 # utf8_decode r2)
                    else 65533 # utf8_decode r1)
             else 65533 # utf8_decode bs)
      else 65533 # utf8_decode bs)"

text \<open>
  \<open>urllib.parse.unquote_plus\<close>: every \<open>+\<close> becomes a space; then, in each maximal run
  of ASCII code points, a \<open>%\<close> followed by two hexadecimal digits becomes the byte they
  write, and the bytes of the run are decoded as UTF-8 with replacement. \<open>unquote_from\<close>
  carries the bytes of the current run.
\<close>

definition is_hex :: "nat \<Rightarrow> bool" where
  "is_hex c = ((48 \<le> c \<and> c \<le> 57) \<or> (65 \<le> c \<and> c \<le> 70) \<or> (97 \<le> c \<and> c \<le> 102))"

definition hex_value :: "nat \<Rightarrow> nat" where
  "hex_value c = (if c \<le> 57 then c - 48 else if c \<le> 70 then c - 55 else c - 87)"

fun unquote_from :: "nat list \<Rightarrow> pystr \<Rightarrow> pystr" where
  "unquote_from run [] = utf8_decode run"
| "unquote_from run (c # cs) =
     (if 128 \<le> c then utf8_decode run @ c # unquote_from [] cs
      else if c = 37 then
        (case cs of
           h1 # h2 # cs' \<Rightarrow>
             if is_hex h1 \<and> is_hex h2 then
               unquote_from (run @ [16 * hex_value h1 + hex_value h2]) cs'
             else unquote_from (run @ [c]) cs
         | _ \<Rightarrow> unquote_from (run @ [c]) cs)
      else unquote_from (run @ [c]) cs)"

definition unquote :: "pystr \<Rightarrow> pystr" where
  "unquote s = unquote_from [] s"

definition unquote_plus :: "pystr \<Rightarrow> pystr" where
  "unquote_plus s = unquote (map (\<lambda>c. if c = 43 then 32 else c) s)"

text \<open>Called on a value that is not a \<open>str\<close>, it fails on its first method call.\<close>

definition unquote_plus_value :: "json \<Rightarrow> py_exception + pystr" where
  "unquote_plus_value v =
     (case v of
        JStr s \<Rightarrow> Inr (unquote_plus s)
      | _ \<Rightarrow> Inl (no_attribute v (py ''replace'')))"

text \<open>
  \<open>s.encode('utf-8')\<close>: the bytes of the text, or a \<open>UnicodeEncodeError\<close> naming the first
  run of surrogates.
\<close>

definition is_surrogate :: "nat \<Rightarrow> bool" where
  "is_surrogate c = (55296 \<le> c \<and> c \<le> 57343)"

definition utf8_encode_char :: "nat \<Rightarrow> nat list" where
  "utf8_encode_char c =
     (if c < 128 then [c]
      else if c < 2048 then [192 + c div 64, 128 + c mod 64]
      else if c < 65536 then [224 + c div 4096, 128 + c div 64 mod 64, 128 + c mod 64]
      else [240 + c div 262144, 128 + c div 4096 mod 64, 128 + c div 64 mod 64,
            128 + c mod 64])"

definition str_encode :: "pystr \<Rightarrow> py_exception + nat list" where
  "str_encode s =
     (let rest = dropWhile (\<lambda>c. \<not> is_surrogate c) s;
          start = length (takeWhile (\<lambda>c. \<not> is_surrogate c) s);
          count = length (takeWhile is_surrogate rest)
      in if rest = [] then Inr (concat (map utf8_encode_char s))
         else if count = 1 then
           Inl (PyExc UnicodeEncodeError
                  (39 # py ''utf-8'' @ 39 # py '' codec can'' @ 39 # py ''t encode character ''
                   @ 39 # 92 # 117 # hex_fixed 4 (hd rest) @ 39 # py '' in position ''
                   @ int_str (int start) @ py '': surrogates not allowed''))
         else
           Inl (PyExc UnicodeEncodeError
                  (39 # py ''utf-8'' @ 39 # py '' codec can'' @ 39 # py ''t encode characters''
                   @ py '' in position '' @ int_str (int start) @ 45
                   # int_str (int (start + count - 1)) @ py '': surrogates not allowed'')))"

definition encode_value :: "json \<Rightarrow> py_exception + nat list" where
  "encode_value v =
     (case v of
        JStr s \<Rightarrow> str_encode s
      | _ \<Rightarrow> Inl (no_attribute v (py ''encode'')))"

text \<open>\<open>len(v)\<close> and \<open>v[0]\<close>.\<close>

definition py_len :: "json \<Rightarrow> py_exception + nat" where
  "py_len v =
     (case v of
        JStr s \<Rightarrow> Inr (length s)
      | JList xs \<Rightarrow> Inr (length xs)
      | JObj kvs \<Rightarrow> Inr (length kvs)
      | _ \<Rightarrow>
          Inl (PyExc TypeError
                 (py ''object of type '' @ 39 # type_name v @ 39 # py '' has no len()'')))"

definition subscript_0 :: "json \<Rightarrow> py_exception + json" where
  "subscript_0 v =
     (case v of
        JList xs \<Rightarrow>
          (case xs of
             [] \<Rightarrow> Inl (PyExc IndexError (py ''list index out of range''))
           | x # _ \<Rightarrow> Inr x)
      | JStr s \<Rightarrow>
          (case s of
             [] \<Rightarrow> Inl (PyExc IndexError (py ''string index out of range''))
           | c # _ \<Rightarrow> Inr (JStr [c]))
      | JObj kvs \<Rightarrow> Inl (PyExc KeyError (py ''0''))
      | _ \<Rightarrow> Inl (not_subscriptable v))"

section \<open>Sequencing\<close>

text \<open>
  A statement that raises ends the block it is in; \<open>bind\<close> and \<open>seq\<close> pass the value of
  a statement that does not raise to the rest of the block, \<open>seq\<close> appending the calls
  made.
\<close>

definition bind :: "py_exception + 'a \<Rightarrow> ('a \<Rightarrow> py_exception + 'b) \<Rightarrow> py_exception + 'b" where
  "bind r f = (case r of Inl e \<Rightarrow> Inl e | Inr v \<Rightarrow> f v)"

definition pure :: "py_exception + 'a \<Rightarrow> 'a run" where
  "pure r = (r, [])"

definition seq :: "'a run \<Rightarrow> ('a \<Rightarrow> 'b run) \<Rightarrow> 'b run" where
  "seq r f = (case fst r of Inl e \<Rightarrow> (Inl e, snd r) | Inr v \<Rightarrow> after (snd r) (f v))"

section \<open>\<open>parse_s3_event\<close>\<close>

definition parse_s3_event :: "world \<Rightarrow> json \<Rightarrow> py_exception + json \<times> pystr" where
  "parse_s3_event w event =
     (case
        bind (subscript_key w event (py ''Records'')) (\<lambda>records.
        bind (subscript_0 records) (\<lambda>record.
        bind (subscript_key w record (py ''s3'')) (\<lambda>s3_record.
        bind (subscript_key w s3_record (py ''bucket'')) (\<lambda>bucket.
        bind (subscript_key w bucket (py ''name'')) (\<lambda>bucket_name.
        bind (subscript_key w s3_record (py ''object'')) (\<lambda>obj.
        bind (subscript_key w obj (py ''key'')) (\<lambda>key.
        bind (unquote_plus_value key) (\<lambda>object_key.
        Inr (bucket_name, object_key)))))))))
      of
        Inr r \<Rightarrow> Inr r
      | Inl e \<Rightarrow>
          if exc_class e = KeyError \<or> exc_class e = IndexError then
            Inl (PyExc ValueError (py ''Invalid S3 event format: '' @ exc_str e))
          else Inl e)"

section \<open>\<open>get_transcript_from_s3\<close>\<close>

text \<open>A \<open>ClientError\<close> is logged and raised again, so every outcome passes through.\<close>

definition get_transcript_from_s3 :: "world \<Rightarrow> json \<Rightarrow> pystr \<Rightarrow> pystr run" where
  "get_transcript_from_s3 w bucket key = (s3_get_object w bucket key, [S3GetObject bucket key])"

section \<open>\<open>submit_job_to_runpod\<close>\<close>

text \<open>\<open>not v\<close> for a configuration value: unset or empty.\<close>

definition unset :: "pystr option \<Rightarrow> bool" where
  "unset v = (v = None \<or> v = Some [])"

definition prompt_for :: "pystr \<Rightarrow> pystr" where
  "prompt_for text =
     py ''Your task is to create a comprehensive summary of the following transcription. ''
     @ 10 # py ''    The summary should be detailed and approximately 4,000 words in length.''
     @ 10 # py ''    ''
     @ 10 # py ''    Transcription:''
     @ 10 # py ''    '' @ text
     @ 10 # py ''    ''
     @ 10 # py ''    Summary:''"

text \<open>
  The request carries the prompt with fixed generation parameters; the trace keeps the
  URL and the prompt. A \<open>RequestException\<close> is logged and raised again.
\<close>

definition submit_job_to_runpod :: "config \<Rightarrow> world \<Rightarrow> pystr \<Rightarrow> json run" where
  "submit_job_to_runpod cfg w text =
     (if unset (RUNPOD_API_KEY cfg) then
        (Inl (PyExc ValueError (py ''Runpod API key is not set.'')), [])
      else if unset (RUNPOD_API_ENDPOINT cfg) then
        (Inl (PyExc ValueError (py ''Runpod API endpoint is not set.'')), [])
      else
        let prompt = prompt_for text;
            run_url = opt_str (RUNPOD_API_ENDPOINT cfg) @ py ''/run''
        in after [HttpPost run_url prompt]
             (pure
                (bind (requests_post w run_url prompt) (\<lambda>result.
                 bind (py_in (py ''id'') result) (\<lambda>present.
                 if \<not> present then
                   Inl (PyExc ValueError
                          (py ''No job ID returned from Runpod: '' @ py_str w result))
                 else subscript_key w result (py ''id''))))))"

section \<open>\<open>poll_runpod_job\<close>\<close>

datatype step = Return json | Raise py_exception | StillRunning

definition status_url :: "config \<Rightarrow> world \<Rightarrow> json \<Rightarrow> pystr" where
  "status_url cfg w job_id =
     opt_str (RUNPOD_API_ENDPOINT cfg) @ py ''/status/'' @ py_str w job_id"

text \<open>Lines 174 to 189: what one decoded reply decides.\<close>

definition status_step :: "world \<Rightarrow> json \<Rightarrow> step" where
  "status_step w result =
     (case dict_get result (py ''status'') (JStr []) of
        Inl e \<Rightarrow> Raise e
      | Inr status \<Rightarrow>
          if status = JStr (py ''COMPLETED'') then
            (case dict_get result (py ''output'') (JObj []) of
               Inl e \<Rightarrow> Raise e
             | Inr output \<Rightarrow>
                 if is_dict output \<and> py_in (py ''text'') output = Inr True then
                   (case subscript_key w output (py ''text'') of
                      Inl e \<Rightarrow> Raise e
                    | Inr t \<Rightarrow> Return t)
                 else if is_str output then Return output
                 else
                   (case dict_get output (py ''text'') (JStr (json_dumps w output)) of
                      Inl e \<Rightarrow> Raise e
                    | Inr t \<Rightarrow> Return t))
          else if status = JStr (py ''FAILED'') then
            (case dict_get result (py ''error'') (JStr (py ''Unknown error'')) of
               Inl e \<Rightarrow> Raise e
             | Inr error_message \<Rightarrow>
                 Raise (PyExc Exception (py ''Runpod job failed: '' @ py_str w error_message)))
          else StillRunning)"

text \<open>The body of the \<open>try\<close> up to the sleep, for attempt \<open>attempt\<close>.\<close>

definition attempt_step :: "config \<Rightarrow> world \<Rightarrow> json \<Rightarrow> nat \<Rightarrow> step" where
  "attempt_step cfg w job_id attempt =
     (case requests_get w attempt (status_url cfg w job_id) of
        Inl e \<Rightarrow> Raise e
      | Inr result \<Rightarrow> status_step w result)"

definition timeout_error :: "config \<Rightarrow> world \<Rightarrow> json \<Rightarrow> py_exception" where
  "timeout_error cfg w job_id =
     PyExc TimeoutError
       (py ''Polling for Runpod job '' @ py_str w job_id @ py '' timed out after ''
          @ int_str (MAX_POLLING_ATTEMPTS cfg) @ py '' attempts.'')"

text \<open>
  The loop, with \<open>n\<close> attempts left and \<open>attempt\<close> the loop variable. A still-running
  reply sleeps at line 194; a \<open>RequestException\<close> raised in the \<open>try\<close> is caught and
  sleeps at line 199; any other exception leaves the function.
\<close>

fun poll_loop :: "config \<Rightarrow> world \<Rightarrow> json \<Rightarrow> nat \<Rightarrow> nat \<Rightarrow> json run" where
  "poll_loop cfg w job_id 0 attempt = (Inl (timeout_error cfg w job_id), [])"
| "poll_loop cfg w job_id (Suc n) attempt =
     (let req = HttpGet (status_url cfg w job_id) in
      case attempt_step cfg w job_id attempt of
        Return v \<Rightarrow> (Inr v, [req])
      | StillRunning \<Rightarrow>
          (case time_sleep (POLLING_INTERVAL cfg) of
             Inl e \<Rightarrow> (Inl e, [req])
           | Inr ev \<Rightarrow> after [req, ev] (poll_loop cfg w job_id n (Suc attempt)))
      | Raise e \<Rightarrow>
          if exc_class e = RequestException then
            (case time_sleep (POLLING_INTERVAL cfg) of
               Inl e' \<Rightarrow> (Inl e', [req])
             | Inr ev \<Rightarrow> after [req, ev] (poll_loop cfg w job_id n (Suc attempt)))
          else (Inl e, [req]))"

definition poll_runpod_job :: "config \<Rightarrow> world \<Rightarrow> json \<Rightarrow> json run" where
  "poll_runpod_job cfg w job_id =
     poll_loop cfg w job_id (nat (MAX_POLLING_ATTEMPTS cfg)) 0"

text \<open>
  Reading a run: \<open>keeps_polling\<close> holds of an attempt that neither returns nor leaves the
  loop with an exception (a still-running reply or a caught \<open>RequestException\<close>);
  \<open>polled i\<close> is the trace of \<open>i\<close> such attempts, each one request followed by one
  sleep; the two counters count the requests and the sleeps of a trace.
\<close>

definition keeps_polling :: "config \<Rightarrow> world \<Rightarrow> json \<Rightarrow> nat \<Rightarrow> bool" where
  "keeps_polling cfg w job_id attempt =
     (case attempt_step cfg w job_id attempt of
        Return v \<Rightarrow> False
      | StillRunning \<Rightarrow> True
      | Raise e \<Rightarrow> exc_class e = RequestException)"

definition polled :: "config \<Rightarrow> world \<Rightarrow> json \<Rightarrow> nat \<Rightarrow> event list" where
  "polled cfg w job_id i =
     concat (replicate i [HttpGet (status_url cfg w job_id), Sleep (POLLING_INTERVAL cfg)])"

definition status_requests :: "event list \<Rightarrow> nat" where
  "status_requests evs = length (filter (\<lambda>ev. case ev of HttpGet _ \<Rightarrow> True | _ \<Rightarrow> False) evs)"

definition sleeps :: "event list \<Rightarrow> nat" where
  "sleeps evs = length (filter (\<lambda>ev. case ev of Sleep _ \<Rightarrow> True | _ \<Rightarrow> False) evs)"

section \<open>\<open>generate_output_key\<close>\<close>

definition generate_output_key :: "pystr \<Rightarrow> pystr" where
  "generate_output_key input_key =
     (let base_name = (if 46 \<in> set input_key then hd (rsplit1 46 input_key) else input_key)
      in py ''summaries/'' @ base_name @ py ''_summary.txt'')"

section \<open>\<open>upload_summary_to_s3\<close>\<close>

text \<open>
  The body is encoded before \<open>put_object\<close> is called. A \<open>ClientError\<close> is logged and
  raised again.
\<close>

definition upload_summary_to_s3 :: "world \<Rightarrow> json \<Rightarrow> pystr \<Rightarrow> pystr \<Rightarrow> unit run" where
  "upload_summary_to_s3 w summary bucket key =
     (case encode_value summary of
        Inl e \<Rightarrow> (Inl e, [])
      | Inr body \<Rightarrow>
          (case s3_put_object w body bucket key of
             Some e \<Rightarrow> (Inl e, [S3PutObject body bucket key])
           | None \<Rightarrow> (Inr (), [S3PutObject body bucket key])))"

section \<open>\<open>lambda_handler\<close>\<close>

record envelope =
  statusCode :: int
  body :: pystr

text \<open>The two dictionaries the handler returns, lines 52 to 59 and 62 to 68.\<close>

definition success_response :: "config \<Rightarrow> world \<Rightarrow> json \<Rightarrow> pystr \<Rightarrow> pystr \<Rightarrow> envelope" where
  "success_response cfg w bucket_name object_key output_key =
     \<lparr> statusCode = 200,
       body = json_dumps w (JObj
         [(py ''message'', JStr (py ''Summary generated successfully'')),
          (py ''input_file'', JStr (py ''s3://'' @ py_str w bucket_name @ 47 # object_key)),
          (py ''output_file'', JStr (py ''s3://'' @ OUTPUT_BUCKET cfg @ 47 # output_key))]) \<rparr>"

definition error_response :: "world \<Rightarrow> py_exception \<Rightarrow> envelope" where
  "error_response w e =
     \<lparr> statusCode = 500,
       body = json_dumps w (JObj
         [(py ''message'', JStr (py ''Error processing file'')),
          (py ''error'', JStr (exc_str e))]) \<rparr>"

text \<open>
  The \<open>try\<close> block of lines 27 to 59. The logging statements have no part in the
  result, except that line 43 takes \<open>len(summary)\<close>, which raises for a summary that
  has no length.
\<close>

definition empty_transcript :: py_exception where
  "empty_transcript = PyExc ValueError (py ''Transcript file is empty.'')"

definition try_block :: "config \<Rightarrow> world \<Rightarrow> json \<Rightarrow> envelope run" where
  "try_block cfg w event =
     seq (pure (parse_s3_event w event)) (\<lambda>(bucket_name, object_key).
     seq (get_transcript_from_s3 w bucket_name object_key) (\<lambda>transcript_text.
     if str_strip transcript_text = [] then (Inl empty_transcript, [])
     else
     seq (submit_job_to_runpod cfg w transcript_text) (\<lambda>job_id.
     seq (poll_runpod_job cfg w job_id) (\<lambda>summary.
     seq (pure (py_len summary)) (\<lambda>summary_length.
     let output_key = generate_output_key object_key in
     seq (upload_summary_to_s3 w summary (OUTPUT_BUCKET cfg) output_key) (\<lambda>_.
     (Inr (success_response cfg w bucket_name object_key output_key), [])))))))"

text \<open>
  Line 25 serializes the event for the log before the \<open>try\<close>; an event decoded from
  JSON always serializes. \<open>except Exception\<close> catches every exception of the block.
\<close>

definition lambda_handler :: "config \<Rightarrow> world \<Rightarrow> json \<Rightarrow> envelope run" where
  "lambda_handler cfg w event =
     (case fst (try_block cfg w event) of
        Inr response \<Rightarrow> (Inr response, snd (try_block cfg w event))
      | Inl e \<Rightarrow> (Inr (error_response w e), snd (try_block cfg w event)))"

section \<open>Concrete runs\<close>

text \<open>
  A configuration with a budget of three attempts, and worlds to run the functions in:
  \<open>scripted rs\<close> answers the status requests with the replies \<open>rs\<close> in turn and with
  a still-running reply after them.
\<close>

definition example_config :: config where
  "example_config =
     \<lparr> RUNPOD_API_KEY = Some (py ''secret''),
       RUNPOD_API_ENDPOINT = Some (py ''https://api.example/v2/ep''),
       OUTPUT_BUCKET = py ''summaries'',
       MAX_POLLING_ATTEMPTS = 3,
       POLLING_INTERVAL = 10 \<rparr>"

definition running_reply :: json where
  "running_reply = JObj [(py ''id'', JStr (py ''job-1'')), (py ''status'', JStr (py ''RUNNING''))]"

definition replies :: "(py_exception + json) list \<Rightarrow> nat \<Rightarrow> pystr \<Rightarrow> py_exception + json" where
  "replies rs n url = (if n < length rs then rs ! n else Inr running_reply)"

definition scripted :: "(py_exception + json) list \<Rightarrow> world" where
  "scripted rs =
     \<lparr> unicode_printable = (\<lambda>c. True),
       float_repr = (\<lambda>f. []),
       float_json = (\<lambda>f. []),
       s3_get_object = (\<lambda>b k. Inr (py ''hello world'')),
       requests_post = (\<lambda>url prompt. Inr (JObj [(py ''id'', JStr (py ''job-1''))])),
       requests_get = replies rs,
       s3_put_object = (\<lambda>body b k. None) \<rparr>"

text \<open>
  An upload notification of two records; the bucket name and the key of the first have
  plus signs and the key a percent escape.
\<close>

definition s3_record :: "pystr \<Rightarrow> pystr \<Rightarrow> json" where
  "s3_record bucket_name key =
     JObj [(py ''eventName'', JStr (py ''ObjectCreated:Put'')),
           (py ''s3'', JObj [(py ''bucket'', JObj [(py ''name'', JStr bucket_name)]),
                             (py ''object'', JObj [(py ''key'', JStr key)])])]"

definition example_event :: json where
  "example_event =
     JObj [(py ''Records'',
            JList [s3_record (py ''in+bucket'') (py ''my+folder/call%2B1.txt''),
                   s3_record (py ''other'') (py ''ignored.txt'')])]"

text \<open>A world whose object store holds nothing but white space.\<close>

definition blank_world :: world where
  "blank_world = (scripted []) \<lparr> s3_get_object := (\<lambda>b k. Inr [32, 10, 9, 12288]) \<rparr>"

text \<open>Replies of the job API used in the runs below.\<close>

definition completed_x :: json where
  "completed_x = JObj [(py ''status'', JStr (py ''COMPLETED'')), (py ''output'', JObj [(py ''text'', JStr (py ''X''))])]"

definition failed_boom :: json where
  "failed_boom = JObj [(py ''status'', JStr (py ''FAILED'')), (py ''error'', JStr (py ''boom''))]"

definition failed_plain :: json where
  "failed_plain = JObj [(py ''status'', JStr (py ''FAILED''))]"

definition completed_fields :: json where
  "completed_fields =
     JObj [(py ''status'', JStr (py ''COMPLETED'')),
           (py ''output'', JObj [(py ''summary'', JStr (py ''ok'')), (py ''tokens'', JInt 42)])]"

definition completed_list :: json where
  "completed_list =
     JObj [(py ''status'', JStr (py ''COMPLETED'')), (py ''output'', JList [JStr (py ''a summary'')])]"

definition connection_error :: py_exception where
  "connection_error = PyExc RequestException (py ''Connection refused'')"

section \<open>Traces\<close>

lemma after_Nil: "after [] r = r"
  by (simp add: after_def)

lemma after_after: "after xs (after ys r) = after (xs @ ys) r"
  by (simp add: after_def)

lemma after_pair: "after xs (a, ys) = (a, xs @ ys)"
  by (simp add: after_def)

lemma polled_0: "polled cfg w job_id 0 = []"
  by (simp add: polled_def)

lemma polled_Suc:
  "polled cfg w job_id (Suc i) =
     HttpGet (status_url cfg w job_id) # Sleep (POLLING_INTERVAL cfg) # polled cfg w job_id i"
  by (simp add: polled_def)

lemma status_requests_polled:
  "status_requests (polled cfg w job_id i @ evs) = i + status_requests evs"
  by (induction i) (simp_all add: polled_0 polled_Suc status_requests_def)

lemma sleeps_polled: "sleeps (polled cfg w job_id i @ evs) = i + sleeps evs"
  by (induction i) (simp_all add: polled_0 polled_Suc sleeps_def)

section \<open>The polling loop\<close>

text \<open>An attempt that keeps polling costs one request and one sleep, and one attempt.\<close>

lemma poll_loop_keeps:
  assumes "keeps_polling cfg w job_id a" and "0 \<le> POLLING_INTERVAL cfg"
  shows "poll_loop cfg w job_id (Suc n) a =
    after [HttpGet (status_url cfg w job_id), Sleep (POLLING_INTERVAL cfg)]
      (poll_loop cfg w job_id n (Suc a))"
  using assms
  by (auto simp: keeps_polling_def time_sleep_def Let_def split: step.splits)

lemma poll_loop_skip:
  assumes "0 \<le> POLLING_INTERVAL cfg"
  shows "(\<forall>j<i. keeps_polling cfg w job_id (a + j)) \<Longrightarrow>
    poll_loop cfg w job_id (i + n) a =
      after (polled cfg w job_id i) (poll_loop cfg w job_id n (a + i))"
proof (induction i arbitrary: a)
  case 0
  show ?case by (simp add: polled_0 after_Nil)
next
  case (Suc i)
  have first: "keeps_polling cfg w job_id a"
    using Suc.prems by force
  have rest: "\<forall>j<i. keeps_polling cfg w job_id (Suc a + j)"
    using Suc.prems by (metis add_Suc_shift Suc_less_eq)
  have "poll_loop cfg w job_id (Suc i + n) a =
      after [HttpGet (status_url cfg w job_id), Sleep (POLLING_INTERVAL cfg)]
        (poll_loop cfg w job_id (i + n) (Suc a))"
    using poll_loop_keeps [OF first assms] by simp
  also have "\<dots> =
      after [HttpGet (status_url cfg w job_id), Sleep (POLLING_INTERVAL cfg)]
        (after (polled cfg w job_id i) (poll_loop cfg w job_id n (Suc a + i)))"
    using Suc.IH [OF rest] by simp
  finally show ?case by (simp add: after_after polled_Suc)
qed

text \<open>
  A run whose first \<open>i\<close> attempts keep polling makes attempt \<open>i\<close> after \<open>i\<close> requests
  and \<open>i\<close> sleeps.
\<close>

lemma poll_loop_reach:
  assumes "i < nat (MAX_POLLING_ATTEMPTS cfg)"
    and "i = 0 \<or> 0 \<le> POLLING_INTERVAL cfg"
    and "\<forall>j<i. keeps_polling cfg w job_id j"
  shows "poll_runpod_job cfg w job_id =
    after (polled cfg w job_id i)
      (poll_loop cfg w job_id (Suc (nat (MAX_POLLING_ATTEMPTS cfg) - Suc i)) i)"
proof (cases "i = 0")
  case True
  with assms(1) show ?thesis
    by (simp add: poll_runpod_job_def polled_0 after_Nil)
next
  case False
  with assms(2) have iv: "0 \<le> POLLING_INTERVAL cfg" by simp
  have "nat (MAX_POLLING_ATTEMPTS cfg) = i + Suc (nat (MAX_POLLING_ATTEMPTS cfg) - Suc i)"
    using assms(1) by simp
  then have "poll_runpod_job cfg w job_id =
      poll_loop cfg w job_id (i + Suc (nat (MAX_POLLING_ATTEMPTS cfg) - Suc i)) 0"
    by (simp add: poll_runpod_job_def)
  also have "\<dots> = after (polled cfg w job_id i)
      (poll_loop cfg w job_id (Suc (nat (MAX_POLLING_ATTEMPTS cfg) - Suc i)) (0 + i))"
    using assms(3) by (intro poll_loop_skip [OF iv]) simp
  finally show ?thesis by simp
qed

lemma poll_all_keep:
  assumes "0 \<le> POLLING_INTERVAL cfg"
    and "\<forall>j<nat (MAX_POLLING_ATTEMPTS cfg). keeps_polling cfg w job_id j"
  shows "poll_runpod_job cfg w job_id =
    (Inl (timeout_error cfg w job_id), polled cfg w job_id (nat (MAX_POLLING_ATTEMPTS cfg)))"
  using poll_loop_skip [OF assms(1), of "nat (MAX_POLLING_ATTEMPTS cfg)" w job_id 0 0] assms(2)
  by (simp add: poll_runpod_job_def after_pair)

lemma status_step_running:
  assumes "map_of kvs (py ''status'') = Some s"
    and "s \<noteq> JStr (py ''COMPLETED'')" and "s \<noteq> JStr (py ''FAILED'')"
  shows "status_step w (JObj kvs) = StillRunning"
  using assms by (simp add: status_step_def dict_get_def)

lemma keeps_polling_running:
  assumes "requests_get w j (status_url cfg w job_id) = Inr (JObj kvs)"
    and "map_of kvs (py ''status'') = Some s"
    and "s \<noteq> JStr (py ''COMPLETED'')" and "s \<noteq> JStr (py ''FAILED'')"
  shows "keeps_polling cfg w job_id j"
  using assms by (simp add: keeps_polling_def attempt_step_def status_step_running)

lemma keeps_polling_transport:
  assumes "requests_get w j (status_url cfg w job_id) = Inl e"
    and "exc_class e = RequestException"
  shows "keeps_polling cfg w job_id j"
  using assms by (simp add: keeps_polling_def attempt_step_def)

text \<open>An attempt that ends the run.\<close>

lemma poll_loop_return:
  assumes "attempt_step cfg w job_id a = Return v"
  shows "poll_loop cfg w job_id (Suc n) a = (Inr v, [HttpGet (status_url cfg w job_id)])"
  using assms by simp

lemma poll_loop_raise:
  assumes "attempt_step cfg w job_id a = Raise e" and "exc_class e \<noteq> RequestException"
  shows "poll_loop cfg w job_id (Suc n) a = (Inl e, [HttpGet (status_url cfg w job_id)])"
  using assms by simp

lemma poll_reach_return:
  assumes "i < nat (MAX_POLLING_ATTEMPTS cfg)"
    and "i = 0 \<or> 0 \<le> POLLING_INTERVAL cfg"
    and "\<forall>j<i. keeps_polling cfg w job_id j"
    and "attempt_step cfg w job_id i = Return v"
  shows "poll_runpod_job cfg w job_id =
    (Inr v, polled cfg w job_id i @ [HttpGet (status_url cfg w job_id)])"
  using poll_loop_reach [OF assms(1-3)] poll_loop_return [OF assms(4)]
  by (simp add: after_pair)

lemma poll_reach_raise:
  assumes "i < nat (MAX_POLLING_ATTEMPTS cfg)"
    and "i = 0 \<or> 0 \<le> POLLING_INTERVAL cfg"
    and "\<forall>j<i. keeps_polling cfg w job_id j"
    and "attempt_step cfg w job_id i = Raise e" and "exc_class e \<noteq> RequestException"
  shows "poll_runpod_job cfg w job_id =
    (Inl e, polled cfg w job_id i @ [HttpGet (status_url cfg w job_id)])"
  using poll_loop_reach [OF assms(1-3)] poll_loop_raise [OF assms(4,5)]
  by (simp add: after_pair)

lemma counts_last:
  "status_requests (polled cfg w job_id i @ [HttpGet u]) = Suc i"
  "sleeps (polled cfg w job_id i @ [HttpGet u]) = i"
  by (simp_all add: status_requests_polled sleeps_polled) (simp_all add: status_requests_def sleeps_def)

lemma failed_not_completed: "py ''FAILED'' \<noteq> py ''COMPLETED''"
  by (simp add: py_def)

lemma status_step_failed:
  assumes "map_of kvs (py ''status'') = Some (JStr (py ''FAILED''))"
  shows "status_step w (JObj kvs) =
     Raise (PyExc Exception (py ''Runpod job failed: '' @
        py_str w (case map_of kvs (py ''error'') of Some m \<Rightarrow> m | None \<Rightarrow> JStr (py ''Unknown error''))))"
  using assms by (simp add: status_step_def dict_get_def failed_not_completed)

lemma status_step_completed:
  assumes "map_of kvs (py ''status'') = Some (JStr (py ''COMPLETED''))"
  shows "status_step w (JObj kvs) =
     (case map_of kvs (py ''output'') of
        None \<Rightarrow> Return (JStr (json_dumps w (JObj [])))
      | Some (JObj out) \<Rightarrow>
          (case map_of out (py ''text'') of
             Some t \<Rightarrow> Return t
           | None \<Rightarrow> Return (JStr (json_dumps w (JObj out))))
      | Some (JStr s) \<Rightarrow> Return (JStr s)
      | Some v \<Rightarrow> Raise (no_attribute v (py ''get'')))"
  using assms
  by (simp add: status_step_def dict_get_def is_dict_def is_str_def py_in_def subscript_key_def
      split: option.splits json.splits)

section \<open>The example run, evaluated\<close>

lemma example_url:
  "status_url example_config (scripted rs) (JStr (py ''job-1'')) =
     py ''https://api.example/v2/ep/status/job-1''"
  by (simp add: status_url_def example_config_def opt_str_def py_str_def py_def)

lemma example_timeout:
  "timeout_error example_config (scripted rs) (JStr (py ''job-1'')) =
     PyExc TimeoutError (py ''Polling for Runpod job job-1 timed out after 3 attempts.'')"
  by (simp add: timeout_error_def example_config_def py_str_def py_def int_str_def
      digits10.simps)

lemma example_polled:
  "polled example_config w job_id (Suc i) =
     HttpGet (status_url example_config w job_id) # Sleep 10 # polled example_config w job_id i"
  by (simp add: polled_Suc example_config_def)

lemma example_keys:
  "py ''status'' \<noteq> py ''output''" "py ''output'' \<noteq> py ''status''"
  "py ''status'' \<noteq> py ''error''" "py ''error'' \<noteq> py ''status''"
  "py ''text'' \<noteq> py ''summary''" "py ''text'' \<noteq> py ''tokens''"
  by (simp_all add: py_def)

section \<open>Claims about \<open>poll_runpod_job\<close>\<close>

text \<open>
  C1. With an attempt budget of \<open>N\<close> (the claim takes \<open>N \<ge> 1\<close>; the statement also holds
  for \<open>N = 0\<close>) and a valid sleep length, if each of the \<open>N\<close> status requests is answered
  by a reply whose status is neither \<open>COMPLETED\<close> nor \<open>FAILED\<close> (always \<open>RUNNING\<close>, say),
  \<open>poll_runpod_job\<close> raises the \<open>TimeoutError\<close> of line 203 after exactly \<open>N\<close> status
  requests and exactly \<open>N\<close> sleeps: the trace is \<open>N\<close> times a request followed by a
  sleep, so the last attempt is followed by a sleep too.
\<close>

theorem poll_always_running_times_out:
  assumes budget: "MAX_POLLING_ATTEMPTS cfg = int N"
    and interval: "0 \<le> POLLING_INTERVAL cfg"
    and running: "\<forall>j<N. \<exists>kvs s.
        requests_get w j (status_url cfg w job_id) = Inr (JObj kvs) \<and>
        map_of kvs (py ''status'') = Some s \<and>
        s \<noteq> JStr (py ''COMPLETED'') \<and> s \<noteq> JStr (py ''FAILED'')"
  shows "poll_runpod_job cfg w job_id =
      (Inl (timeout_error cfg w job_id), polled cfg w job_id N)
    \<and> exc_class (timeout_error cfg w job_id) = TimeoutError
    \<and> status_requests (polled cfg w job_id N) = N
    \<and> sleeps (polled cfg w job_id N) = N"
proof -
  have "\<forall>j<nat (MAX_POLLING_ATTEMPTS cfg). keeps_polling cfg w job_id j"
    using running budget by (auto intro: keeps_polling_running)
  from poll_all_keep [OF interval this] budget
  have "poll_runpod_job cfg w job_id =
      (Inl (timeout_error cfg w job_id), polled cfg w job_id N)"
    by simp
  moreover have "status_requests (polled cfg w job_id N) = N"
    using status_requests_polled [of cfg w job_id N "[]"] by (simp add: status_requests_def)
  moreover have "sleeps (polled cfg w job_id N) = N"
    using sleeps_polled [of cfg w job_id N "[]"] by (simp add: sleeps_def)
  ultimately show ?thesis by (simp add: timeout_error_def)
qed

theorem poll_always_running_times_out_witness:
  "MAX_POLLING_ATTEMPTS example_config = int 3 \<and> 0 \<le> POLLING_INTERVAL example_config \<and>
   poll_runpod_job example_config (scripted []) (JStr (py ''job-1'')) =
     (Inl (PyExc TimeoutError
             (py ''Polling for Runpod job job-1 timed out after 3 attempts.'')),
      [HttpGet (py ''https://api.example/v2/ep/status/job-1''), Sleep 10,
       HttpGet (py ''https://api.example/v2/ep/status/job-1''), Sleep 10,
       HttpGet (py ''https://api.example/v2/ep/status/job-1''), Sleep 10])"
proof -
  have budget: "MAX_POLLING_ATTEMPTS example_config = int 3"
    and interval: "0 \<le> POLLING_INTERVAL example_config"
    by (simp_all add: example_config_def)
  have running: "\<forall>j<3. \<exists>kvs s.
      requests_get (scripted []) j
        (status_url example_config (scripted []) (JStr (py ''job-1''))) = Inr (JObj kvs) \<and>
      map_of kvs (py ''status'') = Some s \<and>
      s \<noteq> JStr (py ''COMPLETED'') \<and> s \<noteq> JStr (py ''FAILED'')"
    by (simp add: scripted_def replies_def running_reply_def py_def)
  from poll_always_running_times_out [OF budget interval running] budget interval
  show ?thesis
    by (simp add: example_timeout example_url example_polled polled_0 numeral_3_eq_3)
qed

text \<open>
  C2. With a budget of at least three attempts, replies \<open>RUNNING\<close>, \<open>RUNNING\<close> and then
  \<open>COMPLETED\<close> with an output mapping whose \<open>text\<close> is \<open>x\<close> make \<open>poll_runpod_job\<close>
  return \<open>x\<close> after exactly three status requests and exactly two sleeps: the trace ends
  with the third request, so the completed attempt does not sleep and the remaining
  budget is not used.
\<close>

theorem poll_running_running_completed:
  assumes budget: "3 \<le> MAX_POLLING_ATTEMPTS cfg"
    and interval: "0 \<le> POLLING_INTERVAL cfg"
    and first: "requests_get w 0 (status_url cfg w job_id) = Inr (JObj kvs0)"
      "map_of kvs0 (py ''status'') = Some (JStr (py ''RUNNING''))"
    and second: "requests_get w 1 (status_url cfg w job_id) = Inr (JObj kvs1)"
      "map_of kvs1 (py ''status'') = Some (JStr (py ''RUNNING''))"
    and third: "requests_get w 2 (status_url cfg w job_id) = Inr (JObj kvs2)"
      "map_of kvs2 (py ''status'') = Some (JStr (py ''COMPLETED''))"
      "map_of kvs2 (py ''output'') = Some (JObj out)"
      "map_of out (py ''text'') = Some (JStr x)"
  shows "poll_runpod_job cfg w job_id =
      (Inr (JStr x),
       [HttpGet (status_url cfg w job_id), Sleep (POLLING_INTERVAL cfg),
        HttpGet (status_url cfg w job_id), Sleep (POLLING_INTERVAL cfg),
        HttpGet (status_url cfg w job_id)])
    \<and> status_requests (snd (poll_runpod_job cfg w job_id)) = 3
    \<and> sleeps (snd (poll_runpod_job cfg w job_id)) = 2"
proof -
  have ne: "JStr (py ''RUNNING'') \<noteq> JStr (py ''COMPLETED'')"
    "JStr (py ''RUNNING'') \<noteq> JStr (py ''FAILED'')"
    by (simp_all add: py_def)
  have k0: "keeps_polling cfg w job_id 0"
    using first ne by (rule keeps_polling_running)
  have k1: "keeps_polling cfg w job_id 1"
    using second ne by (rule keeps_polling_running)
  have keep: "\<forall>j<2. keeps_polling cfg w job_id j"
    using k0 k1 by (simp add: less_Suc_eq numeral_2_eq_2)
  have ret: "attempt_step cfg w job_id 2 = Return (JStr x)"
    using third by (simp add: attempt_step_def status_step_completed)
  have "poll_runpod_job cfg w job_id =
      (Inr (JStr x), polled cfg w job_id 2 @ [HttpGet (status_url cfg w job_id)])"
    using budget interval keep ret by (intro poll_reach_return) simp_all
  then show ?thesis
    by (simp add: counts_last) (simp add: polled_def numeral_2_eq_2)
qed

theorem poll_running_running_completed_witness:
  "3 \<le> MAX_POLLING_ATTEMPTS example_config \<and> 0 \<le> POLLING_INTERVAL example_config \<and>
   poll_runpod_job example_config
       (scripted [Inr running_reply, Inr running_reply, Inr completed_x]) (JStr (py ''job-1'')) =
     (Inr (JStr (py ''X'')),
      [HttpGet (py ''https://api.example/v2/ep/status/job-1''), Sleep 10,
       HttpGet (py ''https://api.example/v2/ep/status/job-1''), Sleep 10,
       HttpGet (py ''https://api.example/v2/ep/status/job-1'')])"
proof -
  let ?w = "scripted [Inr running_reply, Inr running_reply, Inr completed_x]"
  let ?u = "status_url example_config ?w (JStr (py ''job-1''))"
  have budget: "3 \<le> MAX_POLLING_ATTEMPTS example_config"
    and interval: "0 \<le> POLLING_INTERVAL example_config"
    by (simp_all add: example_config_def)
  have r0: "requests_get ?w 0 ?u = Inr (JObj [(py ''id'', JStr (py ''job-1'')), (py ''status'', JStr (py ''RUNNING''))])"
    and r1: "requests_get ?w 1 ?u = Inr (JObj [(py ''id'', JStr (py ''job-1'')), (py ''status'', JStr (py ''RUNNING''))])"
    and r2: "requests_get ?w 2 ?u = Inr (JObj [(py ''status'', JStr (py ''COMPLETED'')), (py ''output'', JObj [(py ''text'', JStr (py ''X''))])])"
    by (simp_all add: scripted_def replies_def running_reply_def completed_x_def)
  have s: "map_of [(py ''id'', JStr (py ''job-1'')), (py ''status'', JStr (py ''RUNNING''))] (py ''status'') = Some (JStr (py ''RUNNING''))"
    by (simp add: py_def)
  have c: "map_of [(py ''status'', JStr (py ''COMPLETED'')), (py ''output'', JObj [(py ''text'', JStr (py ''X''))])] (py ''status'') = Some (JStr (py ''COMPLETED''))"
    "map_of [(py ''status'', JStr (py ''COMPLETED'')), (py ''output'', JObj [(py ''text'', JStr (py ''X''))])] (py ''output'') = Some (JObj [(py ''text'', JStr (py ''X''))])"
    "map_of [(py ''text'', JStr (py ''X''))] (py ''text'') = Some (JStr (py ''X''))"
    by (simp_all add: py_def)
  from poll_running_running_completed [OF budget interval r0 s r1 s r2 c] budget interval
  show ?thesis
    by (simp add: example_url) (simp add: example_config_def)
qed

text \<open>
  C3. If attempt \<open>i\<close> of a run is made (the attempts before it kept polling) and its
  reply has status \<open>FAILED\<close>, \<open>poll_runpod_job\<close> raises on that attempt the exception of
  line 189, whose text is \<open>Runpod job failed: \<close> followed by the reply's \<open>error\<close> field,
  or by \<open>Unknown error\<close> when the field is absent. The trace ends with the request of
  attempt \<open>i\<close>: no sleep on that attempt, no later request.
\<close>

theorem poll_failed_raises_immediately:
  assumes within: "i < nat (MAX_POLLING_ATTEMPTS cfg)"
    and interval: "i = 0 \<or> 0 \<le> POLLING_INTERVAL cfg"
    and before: "\<forall>j<i. keeps_polling cfg w job_id j"
    and reply: "requests_get w i (status_url cfg w job_id) = Inr (JObj kvs)"
    and failed: "map_of kvs (py ''status'') = Some (JStr (py ''FAILED''))"
  shows "poll_runpod_job cfg w job_id =
      (Inl (PyExc Exception
              (py ''Runpod job failed: '' @
               py_str w (case map_of kvs (py ''error'') of
                           Some detail \<Rightarrow> detail
                         | None \<Rightarrow> JStr (py ''Unknown error'')))),
       polled cfg w job_id i @ [HttpGet (status_url cfg w job_id)])
    \<and> status_requests (snd (poll_runpod_job cfg w job_id)) = Suc i
    \<and> sleeps (snd (poll_runpod_job cfg w job_id)) = i"
proof -
  let ?e = "PyExc Exception
              (py ''Runpod job failed: '' @
               py_str w (case map_of kvs (py ''error'') of
                           Some detail \<Rightarrow> detail
                         | None \<Rightarrow> JStr (py ''Unknown error'')))"
  have "attempt_step cfg w job_id i = Raise ?e"
    using reply failed by (simp add: attempt_step_def status_step_failed)
  moreover have "exc_class ?e \<noteq> RequestException" by simp
  ultimately have "poll_runpod_job cfg w job_id =
      (Inl ?e, polled cfg w job_id i @ [HttpGet (status_url cfg w job_id)])"
    using within interval before by (intro poll_reach_raise)
  then show ?thesis by (simp add: counts_last)
qed

theorem poll_failed_raises_immediately_witness:
  "(0::nat) < nat (MAX_POLLING_ATTEMPTS example_config) \<and>
   poll_runpod_job example_config (scripted [Inr failed_boom]) (JStr (py ''job-1'')) =
     (Inl (PyExc Exception (py ''Runpod job failed: boom'')),
      [HttpGet (py ''https://api.example/v2/ep/status/job-1'')]) \<and>
   (1::nat) < nat (MAX_POLLING_ATTEMPTS example_config) \<and>
   poll_runpod_job example_config (scripted [Inr running_reply, Inr failed_plain])
       (JStr (py ''job-1'')) =
     (Inl (PyExc Exception (py ''Runpod job failed: Unknown error'')),
      [HttpGet (py ''https://api.example/v2/ep/status/job-1''), Sleep 10,
       HttpGet (py ''https://api.example/v2/ep/status/job-1'')])"
proof -
  let ?w = "scripted [Inr failed_boom]"
  let ?w' = "scripted [Inr running_reply, Inr failed_plain]"
  let ?job = "JStr (py ''job-1'')"
  have within: "(0::nat) < nat (MAX_POLLING_ATTEMPTS example_config)"
    and within': "(1::nat) < nat (MAX_POLLING_ATTEMPTS example_config)"
    and interval: "(1::nat) = 0 \<or> 0 \<le> POLLING_INTERVAL example_config"
    by (simp_all add: example_config_def)
  have reply: "requests_get ?w 0 (status_url example_config ?w ?job) =
      Inr (JObj [(py ''status'', JStr (py ''FAILED'')), (py ''error'', JStr (py ''boom''))])"
    by (simp add: scripted_def replies_def failed_boom_def)
  have failed: "map_of [(py ''status'', JStr (py ''FAILED'')), (py ''error'', JStr (py ''boom''))]
      (py ''status'') = Some (JStr (py ''FAILED''))"
    by simp
  have reply0: "requests_get ?w' 0 (status_url example_config ?w' ?job) =
      Inr (JObj [(py ''id'', JStr (py ''job-1'')), (py ''status'', JStr (py ''RUNNING''))])"
    by (simp add: scripted_def replies_def running_reply_def)
  have "keeps_polling example_config ?w' ?job 0"
    by (rule keeps_polling_running [OF reply0, where s = "JStr (py ''RUNNING'')"])
      (simp_all add: py_def)
  then have before: "\<forall>j<1. keeps_polling example_config ?w' ?job j"
    by simp
  have reply1: "requests_get ?w' 1 (status_url example_config ?w' ?job) =
      Inr (JObj [(py ''status'', JStr (py ''FAILED''))])"
    by (simp add: scripted_def replies_def failed_plain_def)
  have failed1: "map_of [(py ''status'', JStr (py ''FAILED''))] (py ''status'') =
      Some (JStr (py ''FAILED''))"
    by simp
  have texts: "py ''Runpod job failed: '' @ py ''boom'' = py ''Runpod job failed: boom''"
    "py ''Runpod job failed: '' @ py ''Unknown error'' = py ''Runpod job failed: Unknown error''"
    by (simp_all add: py_def)
  from poll_failed_raises_immediately [OF within _ _ reply failed]
    poll_failed_raises_immediately [OF within' interval before reply1 failed1]
    within within'
  show ?thesis
    by (simp add: example_keys example_url example_polled polled_0 py_str_def texts)
qed

text \<open>
  C4. If attempt \<open>i\<close> of a run is made and its reply has status \<open>COMPLETED\<close>,
  \<open>poll_runpod_job\<close> returns the \<open>text\<close> field of the output when the output is a
  mapping with that field, the output itself when it is a \<open>str\<close>, and the JSON
  serialization of the whole output when it is a mapping without a \<open>text\<close> field.
\<close>

theorem poll_completed_output_shapes:
  assumes within: "i < nat (MAX_POLLING_ATTEMPTS cfg)"
    and interval: "i = 0 \<or> 0 \<le> POLLING_INTERVAL cfg"
    and before: "\<forall>j<i. keeps_polling cfg w job_id j"
    and reply: "requests_get w i (status_url cfg w job_id) = Inr (JObj kvs)"
    and completed: "map_of kvs (py ''status'') = Some (JStr (py ''COMPLETED''))"
  shows "(\<forall>out t. map_of kvs (py ''output'') = Some (JObj out) \<and> map_of out (py ''text'') = Some t
            \<longrightarrow> fst (poll_runpod_job cfg w job_id) = Inr t)
    \<and> (\<forall>s. map_of kvs (py ''output'') = Some (JStr s)
            \<longrightarrow> fst (poll_runpod_job cfg w job_id) = Inr (JStr s))
    \<and> (\<forall>out. map_of kvs (py ''output'') = Some (JObj out) \<and> map_of out (py ''text'') = None
            \<longrightarrow> fst (poll_runpod_job cfg w job_id) = Inr (JStr (json_dumps w (JObj out))))"
proof -
  have run: "fst (poll_runpod_job cfg w job_id) = Inr v"
    if "status_step w (JObj kvs) = Return v" for v
  proof -
    have "attempt_step cfg w job_id i = Return v"
      using reply that by (simp add: attempt_step_def)
    from poll_reach_return [OF within interval before this] show ?thesis by simp
  qed
  show ?thesis
    by (intro conjI allI impI run) (simp_all add: status_step_completed [OF completed])
qed

theorem poll_completed_output_shapes_witness:
  \<open>(0::nat) < nat (MAX_POLLING_ATTEMPTS example_config) \<and>
   fst (poll_runpod_job example_config (scripted [Inr completed_fields]) (JStr (py ''job-1''))) =
     Inr (JStr (py ''{"summary": "ok", "tokens": 42}''))\<close>
proof -
  let ?w = "scripted [Inr completed_fields]"
  let ?out = "[(py ''summary'', JStr (py ''ok'')), (py ''tokens'', JInt 42)]"
  let ?kvs = "[(py ''status'', JStr (py ''COMPLETED'')), (py ''output'', JObj ?out)]"
  have within: "(0::nat) < nat (MAX_POLLING_ATTEMPTS example_config)"
    by (simp add: example_config_def)
  have reply: "requests_get ?w 0 (status_url example_config ?w (JStr (py ''job-1''))) =
      Inr (JObj ?kvs)"
    by (simp add: scripted_def replies_def completed_fields_def)
  have completed: "map_of ?kvs (py ''status'') = Some (JStr (py ''COMPLETED''))"
    by simp
  have outp: "map_of ?kvs (py ''output'') = Some (JObj ?out)"
    by (simp add: example_keys)
  have no_text: "map_of ?out (py ''text'') = None"
    by (simp add: example_keys)
  have dumps: \<open>json_dumps ?w (JObj ?out) = py ''{"summary": "ok", "tokens": 42}''\<close>
    by (simp add: py_def json_string_def json_escape_char_def int_str_def digits10.simps)
  from poll_completed_output_shapes [OF within _ _ reply completed] outp no_text
  have "fst (poll_runpod_job example_config ?w (JStr (py ''job-1''))) =
      Inr (JStr (json_dumps ?w (JObj ?out)))"
    by blast
  with within show ?thesis
    by (simp only: dumps)
qed

text \<open>
  C5. A status request that raises a \<open>RequestException\<close> uses up one attempt of the
  budget: after the request the function sleeps the fixed interval and goes on with
  the next attempt and one attempt less. A run in which every status request raises one
  ends with the \<open>TimeoutError\<close> after \<open>MAX_POLLING_ATTEMPTS\<close> requests and as many
  sleeps.
\<close>

theorem poll_transport_failure_consumes_attempt:
  assumes interval: "0 \<le> POLLING_INTERVAL cfg"
  shows "(\<forall>i e. i < nat (MAX_POLLING_ATTEMPTS cfg) \<and> (\<forall>j<i. keeps_polling cfg w job_id j) \<and>
            requests_get w i (status_url cfg w job_id) = Inl e \<and> exc_class e = RequestException
          \<longrightarrow> poll_runpod_job cfg w job_id =
                after (polled cfg w job_id (Suc i))
                  (poll_loop cfg w job_id (nat (MAX_POLLING_ATTEMPTS cfg) - Suc i) (Suc i)))
    \<and> ((\<forall>j<nat (MAX_POLLING_ATTEMPTS cfg). \<exists>e.
            requests_get w j (status_url cfg w job_id) = Inl e \<and> exc_class e = RequestException)
          \<longrightarrow> poll_runpod_job cfg w job_id =
                (Inl (timeout_error cfg w job_id),
                 polled cfg w job_id (nat (MAX_POLLING_ATTEMPTS cfg)))
              \<and> exc_class (timeout_error cfg w job_id) = TimeoutError
              \<and> status_requests (snd (poll_runpod_job cfg w job_id)) = nat (MAX_POLLING_ATTEMPTS cfg)
              \<and> sleeps (snd (poll_runpod_job cfg w job_id)) = nat (MAX_POLLING_ATTEMPTS cfg))"
proof (intro conjI allI impI)
  fix i e
  assume h: "i < nat (MAX_POLLING_ATTEMPTS cfg) \<and> (\<forall>j<i. keeps_polling cfg w job_id j) \<and>
            requests_get w i (status_url cfg w job_id) = Inl e \<and> exc_class e = RequestException"
  then have "keeps_polling cfg w job_id i"
    by (simp add: keeps_polling_transport)
  with h have keep: "\<forall>j<Suc i. keeps_polling cfg w job_id (0 + j)"
    by (simp add: less_Suc_eq)
  from h have lt: "i < nat (MAX_POLLING_ATTEMPTS cfg)" by (rule conjunct1)
  have "nat (MAX_POLLING_ATTEMPTS cfg) = Suc i + (nat (MAX_POLLING_ATTEMPTS cfg) - Suc i)"
    using lt by arith
  then have "poll_runpod_job cfg w job_id =
      poll_loop cfg w job_id (Suc i + (nat (MAX_POLLING_ATTEMPTS cfg) - Suc i)) 0"
    by (simp add: poll_runpod_job_def)
  also have "\<dots> = after (polled cfg w job_id (Suc i))
      (poll_loop cfg w job_id (nat (MAX_POLLING_ATTEMPTS cfg) - Suc i) (0 + Suc i))"
    by (rule poll_loop_skip [OF interval keep])
  finally show "poll_runpod_job cfg w job_id =
      after (polled cfg w job_id (Suc i))
        (poll_loop cfg w job_id (nat (MAX_POLLING_ATTEMPTS cfg) - Suc i) (Suc i))"
    by simp
next
  assume all: "\<forall>j<nat (MAX_POLLING_ATTEMPTS cfg). \<exists>e.
      requests_get w j (status_url cfg w job_id) = Inl e \<and> exc_class e = RequestException"
  then have "\<forall>j<nat (MAX_POLLING_ATTEMPTS cfg). keeps_polling cfg w job_id j"
    by (auto intro: keeps_polling_transport)
  from poll_all_keep [OF interval this]
  have run: "poll_runpod_job cfg w job_id =
      (Inl (timeout_error cfg w job_id), polled cfg w job_id (nat (MAX_POLLING_ATTEMPTS cfg)))" .
  show "poll_runpod_job cfg w job_id =
      (Inl (timeout_error cfg w job_id), polled cfg w job_id (nat (MAX_POLLING_ATTEMPTS cfg)))"
    by (rule run)
  show "exc_class (timeout_error cfg w job_id) = TimeoutError"
    by (simp add: timeout_error_def)
  show "status_requests (snd (poll_runpod_job cfg w job_id)) = nat (MAX_POLLING_ATTEMPTS cfg)"
    using status_requests_polled [of cfg w job_id "nat (MAX_POLLING_ATTEMPTS cfg)" "[]"]
    by (simp add: run status_requests_def)
  show "sleeps (snd (poll_runpod_job cfg w job_id)) = nat (MAX_POLLING_ATTEMPTS cfg)"
    using sleeps_polled [of cfg w job_id "nat (MAX_POLLING_ATTEMPTS cfg)" "[]"]
    by (simp add: run sleeps_def)
qed

theorem poll_transport_failure_consumes_attempt_witness:
  "0 \<le> POLLING_INTERVAL example_config \<and>
   poll_runpod_job example_config
       (scripted [Inl connection_error, Inl connection_error, Inl connection_error])
       (JStr (py ''job-1'')) =
     (Inl (PyExc TimeoutError
             (py ''Polling for Runpod job job-1 timed out after 3 attempts.'')),
      [HttpGet (py ''https://api.example/v2/ep/status/job-1''), Sleep 10,
       HttpGet (py ''https://api.example/v2/ep/status/job-1''), Sleep 10,
       HttpGet (py ''https://api.example/v2/ep/status/job-1''), Sleep 10])"
proof -
  let ?w = "scripted [Inl connection_error, Inl connection_error, Inl connection_error]"
  have interval: "0 \<le> POLLING_INTERVAL example_config"
    by (simp add: example_config_def)
  have budget: "nat (MAX_POLLING_ATTEMPTS example_config) = Suc (Suc (Suc 0))"
    by (simp add: example_config_def)
  have all: "\<forall>j<nat (MAX_POLLING_ATTEMPTS example_config). \<exists>e.
      requests_get ?w j (status_url example_config ?w (JStr (py ''job-1''))) = Inl e \<and>
      exc_class e = RequestException"
    by (simp add: budget scripted_def replies_def connection_error_def less_Suc_eq)
  from poll_transport_failure_consumes_attempt [OF interval, of ?w "JStr (py ''job-1'')"] all interval
  show ?thesis
    by (simp add: budget example_timeout example_url example_polled polled_0)
qed

text \<open>
  C10. If attempt \<open>i\<close> of a run is made and its reply has status \<open>COMPLETED\<close>: when the
  \<open>output\<close> field is present and is neither a mapping nor a \<open>str\<close> (a list, a number,
  a boolean, \<open>null\<close>), \<open>poll_runpod_job\<close> raises the \<open>AttributeError\<close> of calling \<open>get\<close> on
  it and returns no text; when the field is absent, the default empty mapping is
  serialized and \<open>{}\<close> is returned. So among the replies whose output is not a present
  mapping or \<open>str\<close>, the function returns exactly when the field is absent.
\<close>

theorem poll_completed_output_not_mapping:
  assumes within: "i < nat (MAX_POLLING_ATTEMPTS cfg)"
    and interval: "i = 0 \<or> 0 \<le> POLLING_INTERVAL cfg"
    and before: "\<forall>j<i. keeps_polling cfg w job_id j"
    and reply: "requests_get w i (status_url cfg w job_id) = Inr (JObj kvs)"
    and completed: "map_of kvs (py ''status'') = Some (JStr (py ''COMPLETED''))"
  shows "(\<forall>v. map_of kvs (py ''output'') = Some v \<and> \<not> is_dict v \<and> \<not> is_str v
            \<longrightarrow> poll_runpod_job cfg w job_id =
                  (Inl (no_attribute v (py ''get'')),
                   polled cfg w job_id i @ [HttpGet (status_url cfg w job_id)])
                \<and> exc_class (no_attribute v (py ''get'')) = AttributeError)
    \<and> (map_of kvs (py ''output'') = None
            \<longrightarrow> fst (poll_runpod_job cfg w job_id) = Inr (JStr (py ''{}'')))
    \<and> ((\<forall>v. map_of kvs (py ''output'') = Some v \<longrightarrow> \<not> is_dict v \<and> \<not> is_str v)
            \<longrightarrow> ((\<exists>t. fst (poll_runpod_job cfg w job_id) = Inr t)
                   \<longleftrightarrow> map_of kvs (py ''output'') = None))"
proof -
  have raises: "poll_runpod_job cfg w job_id =
      (Inl (no_attribute v (py ''get'')),
       polled cfg w job_id i @ [HttpGet (status_url cfg w job_id)])"
    if "map_of kvs (py ''output'') = Some v" and "\<not> is_dict v" and "\<not> is_str v" for v
  proof -
    have "status_step w (JObj kvs) = Raise (no_attribute v (py ''get''))"
      using that
      by (cases v) (simp_all add: status_step_completed [OF completed] is_dict_def is_str_def)
    then have "attempt_step cfg w job_id i = Raise (no_attribute v (py ''get''))"
      using reply by (simp add: attempt_step_def)
    moreover have "exc_class (no_attribute v (py ''get'')) \<noteq> RequestException"
      by (simp add: no_attribute_def)
    ultimately show ?thesis
      using within interval before by (intro poll_reach_raise)
  qed
  have absent: "fst (poll_runpod_job cfg w job_id) = Inr (JStr (py ''{}''))"
    if "map_of kvs (py ''output'') = None"
  proof -
    have "status_step w (JObj kvs) = Return (JStr (json_dumps w (JObj [])))"
      using that by (simp add: status_step_completed [OF completed])
    then have "attempt_step cfg w job_id i = Return (JStr (py ''{}''))"
      using reply by (simp add: attempt_step_def py_def)
    from poll_reach_return [OF within interval before this] show ?thesis by simp
  qed
  have only: "(\<exists>t. fst (poll_runpod_job cfg w job_id) = Inr t) \<longleftrightarrow>
      map_of kvs (py ''output'') = None"
    if shapes: "\<forall>v. map_of kvs (py ''output'') = Some v \<longrightarrow> \<not> is_dict v \<and> \<not> is_str v"
  proof (cases "map_of kvs (py ''output'')")
    case None
    with absent show ?thesis by simp
  next
    case (Some v)
    with shapes have "\<not> is_dict v" and "\<not> is_str v" by simp_all
    from raises [OF Some this] Some show ?thesis by simp
  qed
  show ?thesis
    using raises absent only by (simp add: no_attribute_def)
qed

theorem poll_completed_output_not_mapping_witness:
  "(0::nat) < nat (MAX_POLLING_ATTEMPTS example_config) \<and>
   poll_runpod_job example_config (scripted [Inr completed_list]) (JStr (py ''job-1'')) =
     (Inl (PyExc AttributeError (39 # py ''list'' @ 39 # py '' object has no attribute '' @ 39 # py ''get'' @ [39])),
      [HttpGet (py ''https://api.example/v2/ep/status/job-1'')])"
proof -
  let ?w = "scripted [Inr completed_list]"
  let ?v = "JList [JStr (py ''a summary'')]"
  let ?kvs = "[(py ''status'', JStr (py ''COMPLETED'')), (py ''output'', ?v)]"
  have within: "(0::nat) < nat (MAX_POLLING_ATTEMPTS example_config)"
    by (simp add: example_config_def)
  have reply: "requests_get ?w 0 (status_url example_config ?w (JStr (py ''job-1''))) =
      Inr (JObj ?kvs)"
    by (simp add: scripted_def replies_def completed_list_def)
  have completed: "map_of ?kvs (py ''status'') = Some (JStr (py ''COMPLETED''))"
    by simp
  have outp: "map_of ?kvs (py ''output'') = Some ?v \<and> \<not> is_dict ?v \<and> \<not> is_str ?v"
    by (simp add: example_keys is_dict_def is_str_def)
  from poll_completed_output_not_mapping [OF within _ _ reply completed] outp within
  show ?thesis
    by (simp add: example_url polled_0 no_attribute_def type_name_def)
qed

section \<open>Claims about \<open>generate_output_key\<close>\<close>

lemma rsplit1_last:
  assumes "sep \<notin> set ext"
  shows "rsplit1 sep (base @ sep # ext) = [base, ext]"
proof -
  have all: "\<And>x. x \<in> set (rev ext) \<Longrightarrow> x \<noteq> sep"
    using assms by auto
  have "dropWhile (\<lambda>c. c \<noteq> sep) (rev ext @ sep # rev base) = sep # rev base"
    using all by (simp add: dropWhile_append3)
  moreover have "takeWhile (\<lambda>c. c \<noteq> sep) (rev ext @ sep # rev base) = rev ext"
    using all by (simp add: takeWhile_tail)
  ultimately show ?thesis
    by (simp add: rsplit1_def)
qed

text \<open>
  C6. \<open>generate_output_key\<close> uses the whole key as base when the key has no \<open>.\<close>, and
  otherwise the text before the last \<open>.\<close> (whatever follows that \<open>.\<close> is dropped, also
  when it contains a \<open>/\<close>); the result is \<open>summaries/\<close>, the base and
  \<open>_summary.txt\<close>. The two examples of the specification hold.
\<close>

theorem generate_output_key_strips_last_segment:
  "(46 \<notin> set key \<longrightarrow> generate_output_key key = py ''summaries/'' @ key @ py ''_summary.txt'')
   \<and> (\<forall>base ext. key = base @ 46 # ext \<and> 46 \<notin> set ext \<longrightarrow>
          generate_output_key key = py ''summaries/'' @ base @ py ''_summary.txt'')
   \<and> generate_output_key (py ''foo/bar.txt'') = py ''summaries/foo/bar_summary.txt''
   \<and> generate_output_key (py ''noext'') = py ''summaries/noext_summary.txt''"
proof (intro conjI allI impI)
  assume "46 \<notin> set key"
  then show "generate_output_key key = py ''summaries/'' @ key @ py ''_summary.txt''"
    by (simp add: generate_output_key_def)
next
  fix base ext
  assume "key = base @ 46 # ext \<and> 46 \<notin> set ext"
  then show "generate_output_key key = py ''summaries/'' @ base @ py ''_summary.txt''"
    by (simp add: generate_output_key_def rsplit1_last)
next
  have "py ''foo/bar.txt'' = py ''foo/bar'' @ 46 # py ''txt''" and "46 \<notin> set (py ''txt'')"
    by (simp_all add: py_def)
  then have "generate_output_key (py ''foo/bar.txt'') =
      py ''summaries/'' @ py ''foo/bar'' @ py ''_summary.txt''"
    by (simp add: generate_output_key_def rsplit1_last)
  then show "generate_output_key (py ''foo/bar.txt'') = py ''summaries/foo/bar_summary.txt''"
    by (simp add: py_def)
next
  have "46 \<notin> set (py ''noext'')"
    by (simp add: py_def)
  then have "generate_output_key (py ''noext'') =
      py ''summaries/'' @ py ''noext'' @ py ''_summary.txt''"
    by (simp add: generate_output_key_def)
  then show "generate_output_key (py ''noext'') = py ''summaries/noext_summary.txt''"
    by (simp add: py_def)
qed

theorem generate_output_key_strips_last_segment_witness:
  "generate_output_key (py ''calls/2024.06/ep.12.final.txt'') =
     py ''summaries/calls/2024.06/ep.12.final_summary.txt''
   \<and> generate_output_key (py ''reports.d/today'') = py ''summaries/reports_summary.txt''"
proof -
  have long: "py ''calls/2024.06/ep.12.final.txt'' =
      py ''calls/2024.06/ep.12.final'' @ 46 # py ''txt'' \<and> 46 \<notin> set (py ''txt'')"
    by (simp add: py_def)
  have dir: "py ''reports.d/today'' = py ''reports'' @ 46 # py ''d/today'' \<and>
      46 \<notin> set (py ''d/today'')"
    by (simp add: py_def)
  have joined:
    "py ''summaries/'' @ py ''calls/2024.06/ep.12.final'' @ py ''_summary.txt'' =
       py ''summaries/calls/2024.06/ep.12.final_summary.txt''"
    "py ''summaries/'' @ py ''reports'' @ py ''_summary.txt'' =
       py ''summaries/reports_summary.txt''"
    by (simp_all add: py_def)
  from generate_output_key_strips_last_segment [of "py ''calls/2024.06/ep.12.final.txt''"]
    generate_output_key_strips_last_segment [of "py ''reports.d/today''"] long dir
  show ?thesis
    by (metis joined)
qed

section \<open>Claims about \<open>parse_s3_event\<close>\<close>

lemma utf8_decode_ascii: "\<forall>b\<in>set bs. b < 128 \<Longrightarrow> utf8_decode bs = bs"
  by (induction bs) simp_all

lemma unquote_from_no_percent:
  "37 \<notin> set s \<Longrightarrow> \<forall>b\<in>set run. b < 128 \<Longrightarrow> unquote_from run s = run @ s"
proof (induction s arbitrary: run)
  case Nil
  then show ?case by (simp add: utf8_decode_ascii)
next
  case (Cons c cs)
  show ?case
  proof (cases "128 \<le> c")
    case True
    have "unquote_from [] cs = [] @ cs"
      using Cons.prems(1) by (intro Cons.IH) simp_all
    with True Cons.prems(2) show ?thesis
      by (simp add: utf8_decode_ascii)
  next
    case False
    have "unquote_from (run @ [c]) cs = (run @ [c]) @ cs"
      using Cons.prems False by (intro Cons.IH) simp_all
    with False Cons.prems(1) show ?thesis by simp
  qed
qed

lemma unquote_plus_no_percent:
  assumes "37 \<notin> set s"
  shows "unquote_plus s = map (\<lambda>c. if c = 43 then 32 else c) s"
proof -
  have "37 \<notin> set (map (\<lambda>c. if c = 43 then 32 else c) s)"
    using assms by auto
  then show ?thesis
    by (simp add: unquote_plus_def unquote_def unquote_from_no_percent)
qed

lemma example_key_decoded:
  "unquote_plus (py ''my+folder/call%2B1.txt'') = py ''my folder/call+1.txt''"
  by (simp add: unquote_plus_def unquote_def py_def is_hex_def hex_value_def)

lemma example_bucket_decoded: "unquote_plus (py ''in+bucket'') = py ''in bucket''"
  by (simp add: unquote_plus_def unquote_def py_def)

lemma example_event_parsed:
  "parse_s3_event w example_event = Inr (JStr (py ''in+bucket''), py ''my folder/call+1.txt'')"
  by (simp add: example_event_def s3_record_def parse_s3_event_def bind_def subscript_key_def
      subscript_0_def unquote_plus_value_def unquote_plus_def unquote_def py_def is_hex_def
      hex_value_def)

text \<open>
  C7, as stated, fails: the bucket name is not URL-decoded. For the example event,
  whose first record names the bucket \<open>in+bucket\<close>, the result is not the pair of the
  decoded bucket name and the decoded key.
\<close>

theorem parse_s3_event_bucket_not_decoded:
  "parse_s3_event (scripted []) example_event \<noteq>
     Inr (JStr (unquote_plus (py ''in+bucket'')), unquote_plus (py ''my+folder/call%2B1.txt''))"
  by (simp add: example_event_parsed example_bucket_decoded) (simp add: py_def)

text \<open>
  C7, amended. For every event whose \<open>Records\<close> is a list with a first record that has
  \<open>s3.bucket.name\<close> and a \<open>str\<close> at \<open>s3.object.key\<close>, \<open>parse_s3_event\<close> returns the bucket
  name of that record as it is given and the key of that record URL-decoded, whatever
  the later records and the other fields are; in a key without \<open>%\<close> the decoding turns
  every \<open>+\<close> into a space and changes nothing else.
\<close>

theorem parse_s3_event_first_record:
  assumes "map_of payload (py ''Records'') = Some (JList (JObj record # others))"
    and "map_of record (py ''s3'') = Some (JObj s3)"
    and "map_of s3 (py ''bucket'') = Some (JObj bucket)"
    and "map_of bucket (py ''name'') = Some bucket_name"
    and "map_of s3 (py ''object'') = Some (JObj obj)"
    and "map_of obj (py ''key'') = Some (JStr key)"
  shows "parse_s3_event w (JObj payload) = Inr (bucket_name, unquote_plus key)
    \<and> (37 \<notin> set key \<longrightarrow> unquote_plus key = map (\<lambda>c. if c = 43 then 32 else c) key)"
  using assms
  by (simp add: parse_s3_event_def bind_def subscript_key_def subscript_0_def
      unquote_plus_value_def unquote_plus_no_percent)

theorem parse_s3_event_first_record_witness:
  "parse_s3_event (scripted []) example_event =
     Inr (JStr (py ''in+bucket''), py ''my folder/call+1.txt'')"
proof -
  let ?obj = "[(py ''key'', JStr (py ''my+folder/call%2B1.txt''))]"
  let ?bucket = "[(py ''name'', JStr (py ''in+bucket''))]"
  let ?s3 = "[(py ''bucket'', JObj ?bucket), (py ''object'', JObj ?obj)]"
  let ?first = "[(py ''eventName'', JStr (py ''ObjectCreated:Put'')), (py ''s3'', JObj ?s3)]"
  let ?payload = "[(py ''Records'',
      JList [JObj ?first, s3_record (py ''other'') (py ''ignored.txt'')])]"
  have keys: "py ''s3'' \<noteq> py ''eventName''" "py ''object'' \<noteq> py ''bucket''"
    by (simp_all add: py_def)
  have ev: "example_event = JObj ?payload"
    by (simp add: example_event_def s3_record_def)
  have records: "map_of ?payload (py ''Records'') =
      Some (JList (JObj ?first # [s3_record (py ''other'') (py ''ignored.txt'')]))"
    by simp
  have s3: "map_of ?first (py ''s3'') = Some (JObj ?s3)"
    using keys by simp
  have bucket: "map_of ?s3 (py ''bucket'') = Some (JObj ?bucket)"
    by simp
  have name: "map_of ?bucket (py ''name'') = Some (JStr (py ''in+bucket''))"
    by simp
  have obj: "map_of ?s3 (py ''object'') = Some (JObj ?obj)"
    using keys by simp
  have key: "map_of ?obj (py ''key'') = Some (JStr (py ''my+folder/call%2B1.txt''))"
    by simp
  from parse_s3_event_first_record [OF records s3 bucket name obj key, of "scripted []"]
  show ?thesis
    by (simp only: ev example_key_decoded)
qed

section \<open>Claims about \<open>lambda_handler\<close>\<close>

lemma str_strip_blank: "str_strip t = [] \<longleftrightarrow> (\<forall>c\<in>set t. py_isspace c)"
proof
  assume "str_strip t = []"
  then have "dropWhile py_isspace (rev (dropWhile py_isspace t)) = []"
    by (simp add: str_strip_def)
  then have "\<forall>c\<in>set (rev (dropWhile py_isspace t)). py_isspace c"
    by (simp only: dropWhile_eq_Nil_conv)
  then have all: "\<forall>c\<in>set (dropWhile py_isspace t). py_isspace c"
    by simp
  have "dropWhile py_isspace t = []"
  proof (cases "dropWhile py_isspace t")
    case Nil
    then show ?thesis .
  next
    case (Cons c cs)
    then have "\<not> py_isspace c"
      by (metis hd_dropWhile list.sel(1) list.distinct(1))
    with all Cons show ?thesis by simp
  qed
  then show "\<forall>c\<in>set t. py_isspace c"
    by (simp only: dropWhile_eq_Nil_conv)
next
  assume "\<forall>c\<in>set t. py_isspace c"
  then have "dropWhile py_isspace t = []"
    by (simp only: dropWhile_eq_Nil_conv)
  then show "str_strip t = []"
    by (simp only: str_strip_def rev.simps dropWhile.simps)
qed

lemma seq_pure_Inr: "seq (pure (Inr v)) f = f v"
  by (simp add: seq_def pure_def after_def)

lemma seq_Inr: "seq (Inr v, evs) f = after evs (f v)"
  by (simp add: seq_def)

lemma try_block_blank:
  assumes "parse_s3_event w event = Inr (bucket_name, object_key)"
    and "s3_get_object w bucket_name object_key = Inr transcript"
    and "\<forall>c\<in>set transcript. py_isspace c"
  shows "try_block cfg w event = (Inl empty_transcript, [S3GetObject bucket_name object_key])"
  using assms
  by (simp add: try_block_def seq_pure_Inr get_transcript_from_s3_def seq_Inr str_strip_blank
      after_pair)

lemma try_block_stages:
  "fst (try_block cfg w event) =
     (case parse_s3_event w event of
        Inl e \<Rightarrow> Inl e
      | Inr (bucket_name, object_key) \<Rightarrow>
          (case s3_get_object w bucket_name object_key of
             Inl e \<Rightarrow> Inl e
           | Inr transcript \<Rightarrow>
               if str_strip transcript = [] then Inl empty_transcript
               else
                 (case fst (submit_job_to_runpod cfg w transcript) of
                    Inl e \<Rightarrow> Inl e
                  | Inr job_id \<Rightarrow>
                      (case fst (poll_runpod_job cfg w job_id) of
                         Inl e \<Rightarrow> Inl e
                       | Inr summary \<Rightarrow>
                           (case py_len summary of
                              Inl e \<Rightarrow> Inl e
                            | Inr n \<Rightarrow>
                                (case fst (upload_summary_to_s3 w summary (OUTPUT_BUCKET cfg)
                                             (generate_output_key object_key)) of
                                   Inl e \<Rightarrow> Inl e
                                 | Inr u \<Rightarrow>
                                     Inr (success_response cfg w bucket_name object_key
                                            (generate_output_key object_key))))))))"
  by (simp add: try_block_def seq_def pure_def get_transcript_from_s3_def after_def Let_def
      split: sum.splits prod.splits)

lemma lambda_handler_fst:
  "fst (lambda_handler cfg w event) =
     (case fst (try_block cfg w event) of
        Inr response \<Rightarrow> Inr response
      | Inl e \<Rightarrow> Inr (error_response w e))"
  by (simp add: lambda_handler_def split: sum.splits)

lemma empty_transcript_response:
  \<open>error_response w (PyExc ValueError (py ''Transcript file is empty.'')) =
     \<lparr> statusCode = 500,
       body = py ''{"message": "Error processing file", "error": "Transcript file is empty."}'' \<rparr>\<close>
  by (simp add: error_response_def py_def json_string_def json_escape_char_def)

lemma example_output_key:
  "generate_output_key (py ''my folder/call+1.txt'') = py ''summaries/my folder/call+1_summary.txt''"
proof -
  have "py ''my folder/call+1.txt'' = py ''my folder/call+1'' @ 46 # py ''txt''"
    and "46 \<notin> set (py ''txt'')"
    by (simp_all add: py_def)
  then have "generate_output_key (py ''my folder/call+1.txt'') =
      py ''summaries/'' @ py ''my folder/call+1'' @ py ''_summary.txt''"
    by (simp add: generate_output_key_def rsplit1_last)
  then show ?thesis by (simp add: py_def)
qed

lemma example_transcript:
  "s3_get_object (scripted rs) b k = Inr (py ''hello world'')"
  "str_strip (py ''hello world'') \<noteq> []"
  by (simp_all add: scripted_def str_strip_blank) (simp add: py_def py_isspace_def)

lemma example_submit:
  "fst (submit_job_to_runpod example_config (scripted rs) t) = Inr (JStr (py ''job-1''))"
  by (simp add: submit_job_to_runpod_def unset_def example_config_def scripted_def pure_def
      after_def bind_def py_in_def subscript_key_def Let_def py_def)

lemma example_poll:
  "fst (poll_runpod_job example_config (scripted [Inr running_reply, Inr completed_x])
          (JStr (py ''job-1''))) = Inr (JStr (py ''X''))"
proof -
  let ?w = "scripted [Inr running_reply, Inr completed_x]"
  let ?job = "JStr (py ''job-1'')"
  have within: "(1::nat) < nat (MAX_POLLING_ATTEMPTS example_config)"
    and interval: "(1::nat) = 0 \<or> 0 \<le> POLLING_INTERVAL example_config"
    by (simp_all add: example_config_def)
  have reply0: "requests_get ?w 0 (status_url example_config ?w ?job) =
      Inr (JObj [(py ''id'', JStr (py ''job-1'')), (py ''status'', JStr (py ''RUNNING''))])"
    by (simp add: scripted_def replies_def running_reply_def)
  have "keeps_polling example_config ?w ?job 0"
    by (rule keeps_polling_running [OF reply0, where s = "JStr (py ''RUNNING'')"])
      (simp_all add: py_def)
  then have before: "\<forall>j<1. keeps_polling example_config ?w ?job j"
    by simp
  have reply1: "requests_get ?w 1 (status_url example_config ?w ?job) =
      Inr (JObj [(py ''status'', JStr (py ''COMPLETED'')),
                 (py ''output'', JObj [(py ''text'', JStr (py ''X''))])])"
    by (simp add: scripted_def replies_def completed_x_def)
  have "attempt_step example_config ?w ?job 1 = Return (JStr (py ''X''))"
    using reply1 by (simp add: attempt_step_def status_step_completed example_keys)
  from poll_reach_return [OF within interval before this] show ?thesis
    by simp
qed

lemma example_upload:
  "py_len (JStr (py ''X'')) = Inr 1"
  "fst (upload_summary_to_s3 (scripted rs) (JStr (py ''X'')) b k) = Inr ()"
  by (simp_all add: py_len_def py_def upload_summary_to_s3_def encode_value_def str_encode_def
      is_surrogate_def scripted_def)

lemma example_success_response:
  \<open>success_response example_config w (JStr (py ''in+bucket'')) (py ''my folder/call+1.txt'')
       (py ''summaries/my folder/call+1_summary.txt'') =
     \<lparr> statusCode = 200,
       body = py ''{"message": "Summary generated successfully", "input_file": "s3://in+bucket/my folder/call+1.txt", "output_file": "s3://summaries/summaries/my folder/call+1_summary.txt"}'' \<rparr>\<close>
  by (simp add: success_response_def example_config_def py_str_def py_def json_string_def
      json_escape_char_def)

lemma example_bad_event:
  "parse_s3_event w (JObj []) =
     Inl (PyExc ValueError (py ''Invalid S3 event format: '' @ 39 # py ''Records'' @ [39]))"
  by (simp add: parse_s3_event_def bind_def subscript_key_def repr_str_def repr_char_def py_def)

lemma example_bad_event_response:
  \<open>error_response w (PyExc ValueError (py ''Invalid S3 event format: '' @ 39 # py ''Records'' @ [39])) =
     \<lparr> statusCode = 500,
       body = py ''{"message": "Error processing file", "error": "Invalid S3 event format: 'Records'"}'' \<rparr>\<close>
  by (simp add: error_response_def py_def json_string_def json_escape_char_def)

text \<open>
  C8. If the event parses and the object fetched is white space only (empty after
  \<open>strip\<close>), the \<open>try\<close> block ends with the \<open>ValueError\<close> of line 34 and the handler
  answers 500 with that error's text; the only call made is the read of the object:
  the job API gets no request, neither the submission nor a status request.
\<close>

theorem blank_transcript_fails_before_job_api:
  assumes parsed: "parse_s3_event w event = Inr (bucket_name, object_key)"
    and fetched: "s3_get_object w bucket_name object_key = Inr transcript"
    and blank: "\<forall>c\<in>set transcript. py_isspace c"
  shows "try_block cfg w event =
      (Inl (PyExc ValueError (py ''Transcript file is empty.'')),
       [S3GetObject bucket_name object_key])
    \<and> lambda_handler cfg w event =
      (Inr (error_response w (PyExc ValueError (py ''Transcript file is empty.''))),
       [S3GetObject bucket_name object_key])
    \<and> (\<forall>url prompt. HttpPost url prompt \<notin> set (snd (lambda_handler cfg w event)))
    \<and> (\<forall>url. HttpGet url \<notin> set (snd (lambda_handler cfg w event)))"
  using try_block_blank [OF assms, of cfg]
  by (simp add: lambda_handler_def empty_transcript_def)

theorem blank_transcript_fails_before_job_api_witness:
  \<open>lambda_handler example_config blank_world example_event =
     (Inr \<lparr> statusCode = 500,
             body = py ''{"message": "Error processing file", "error": "Transcript file is empty."}'' \<rparr>,
      [S3GetObject (JStr (py ''in+bucket'')) (py ''my folder/call+1.txt'')])\<close>
proof -
  have fetched: "s3_get_object blank_world (JStr (py ''in+bucket'')) (py ''my folder/call+1.txt'') =
      Inr [32, 10, 9, 12288]"
    by (simp add: blank_world_def)
  have blank: "\<forall>c\<in>set [32, 10, 9, 12288]. py_isspace c"
    by (simp add: py_isspace_def)
  from blank_transcript_fails_before_job_api
    [OF example_event_parsed fetched blank, of example_config, THEN conjunct2, THEN conjunct1]
  show ?thesis
    by (simp only: empty_transcript_response)
qed

text \<open>
  C9. For every event, \<open>lambda_handler\<close> returns a response, with status code 200 or
  500, and raises nothing. Stage by stage: the first step of the \<open>try\<close> block that
  raises (parsing the event, reading the object, the empty-transcript check, submitting
  the job, polling it, taking the length of the summary for the log, writing the
  summary) decides the answer, which is 500 with \<open>str\<close> of that exception in its
  \<open>error\<close> field; when no step raises, the answer is 200 with the input location
  \<open>s3://bucket/key\<close> and the output location \<open>s3://OUTPUT_BUCKET/output_key\<close>.
\<close>

theorem lambda_handler_always_responds:
  "(\<exists>response. fst (lambda_handler cfg w event) = Inr response \<and>
       (statusCode response = 200 \<or> statusCode response = 500))
   \<and> (\<forall>e. parse_s3_event w event = Inl e \<longrightarrow>
         fst (lambda_handler cfg w event) = Inr (error_response w e))
   \<and> (\<forall>bucket_name object_key. parse_s3_event w event = Inr (bucket_name, object_key) \<longrightarrow>
        (\<forall>e. s3_get_object w bucket_name object_key = Inl e \<longrightarrow>
           fst (lambda_handler cfg w event) = Inr (error_response w e))
      \<and> (\<forall>transcript. s3_get_object w bucket_name object_key = Inr transcript \<longrightarrow>
           (str_strip transcript = [] \<longrightarrow>
              fst (lambda_handler cfg w event) = Inr (error_response w empty_transcript))
         \<and> (str_strip transcript \<noteq> [] \<longrightarrow>
              (\<forall>e. fst (submit_job_to_runpod cfg w transcript) = Inl e \<longrightarrow>
                 fst (lambda_handler cfg w event) = Inr (error_response w e))
            \<and> (\<forall>job_id. fst (submit_job_to_runpod cfg w transcript) = Inr job_id \<longrightarrow>
                 (\<forall>e. fst (poll_runpod_job cfg w job_id) = Inl e \<longrightarrow>
                    fst (lambda_handler cfg w event) = Inr (error_response w e))
               \<and> (\<forall>summary. fst (poll_runpod_job cfg w job_id) = Inr summary \<longrightarrow>
                    (\<forall>e. py_len summary = Inl e \<longrightarrow>
                       fst (lambda_handler cfg w event) = Inr (error_response w e))
                  \<and> (\<forall>n. py_len summary = Inr n \<longrightarrow>
                       (\<forall>e. fst (upload_summary_to_s3 w summary (OUTPUT_BUCKET cfg)
                                   (generate_output_key object_key)) = Inl e \<longrightarrow>
                          fst (lambda_handler cfg w event) = Inr (error_response w e))
                     \<and> (fst (upload_summary_to_s3 w summary (OUTPUT_BUCKET cfg)
                                (generate_output_key object_key)) = Inr () \<longrightarrow>
                          fst (lambda_handler cfg w event) =
                            Inr (success_response cfg w bucket_name object_key
                                   (generate_output_key object_key)))))))))
   \<and> (\<forall>e. statusCode (error_response w e) = 500 \<and>
            body (error_response w e) =
              json_dumps w (JObj [(py ''message'', JStr (py ''Error processing file'')),
                                  (py ''error'', JStr (exc_str e))]))
   \<and> (\<forall>bucket_name object_key output_key.
         statusCode (success_response cfg w bucket_name object_key output_key) = 200 \<and>
         body (success_response cfg w bucket_name object_key output_key) =
           json_dumps w (JObj
             [(py ''message'', JStr (py ''Summary generated successfully'')),
              (py ''input_file'', JStr (py ''s3://'' @ py_str w bucket_name @ 47 # object_key)),
              (py ''output_file'', JStr (py ''s3://'' @ OUTPUT_BUCKET cfg @ 47 # output_key))]))"
  apply (intro conjI)
  subgoal
    by (simp add: lambda_handler_fst try_block_stages error_response_def success_response_def
        split: sum.splits prod.splits)
  subgoal by (simp add: lambda_handler_fst try_block_stages)
  subgoal by (simp add: lambda_handler_fst try_block_stages)
  subgoal by (simp add: error_response_def)
  subgoal by (simp add: success_response_def)
  done

theorem lambda_handler_always_responds_witness:
  \<open>fst (lambda_handler example_config (scripted [Inr running_reply, Inr completed_x])
          example_event) =
     Inr \<lparr> statusCode = 200,
           body = py ''{"message": "Summary generated successfully", "input_file": "s3://in+bucket/my folder/call+1.txt", "output_file": "s3://summaries/summaries/my folder/call+1_summary.txt"}'' \<rparr>
   \<and> fst (lambda_handler example_config (scripted []) (JObj [])) =
     Inr \<lparr> statusCode = 500,
           body = py ''{"message": "Error processing file", "error": "Invalid S3 event format: 'Records'"}'' \<rparr>\<close>
proof -
  let ?w = "scripted [Inr running_reply, Inr completed_x]"
  have bucket: "OUTPUT_BUCKET example_config = py ''summaries''"
    by (simp add: example_config_def)
  from lambda_handler_always_responds [of example_config ?w example_event,
      THEN conjunct2, THEN conjunct2, THEN conjunct1]
  have "fst (lambda_handler example_config ?w example_event) =
      Inr (success_response example_config ?w (JStr (py ''in+bucket''))
             (py ''my folder/call+1.txt'') (py ''summaries/my folder/call+1_summary.txt''))"
    by (simp add: example_event_parsed example_transcript example_submit example_poll
        example_upload example_output_key)
  moreover
  from lambda_handler_always_responds [of example_config "scripted []" "JObj []",
      THEN conjunct2, THEN conjunct1]
  have "fst (lambda_handler example_config (scripted []) (JObj [])) =
      Inr (error_response (scripted [])
             (PyExc ValueError (py ''Invalid S3 event format: '' @ 39 # py ''Records'' @ [39])))"
    by (simp add: example_bad_event)
  ultimately show ?thesis
    by (simp only: example_success_response example_bad_event_response)
qed

end
